theory Spec2Isabelle
  imports Complex_Main
begin

section \<open>Values of the runtime\<close>

text \<open>
  The relay of \<^verbatim>\<open>src/server/server.js\<close> exchanges JSON texts with its two peers. A
  parsed JSON text is a value of \<open>json\<close>; an object keeps its members in order. A
  number literal too large for a double parses to an infinity (\<^verbatim>\<open>1e400\<close>), so a
  parsed number is finite or one of the two infinities.
\<close>

datatype number = Finite rat | PosInfinity | NegInfinity

datatype json =
    JNull
  | JBool bool
  | JNum number
  | JStr string
  | JArr "json list"
  | JObj "(string \<times> json) list"

text \<open>The truthiness test behind \<^verbatim>\<open>x || y\<close>, on a parsed JSON value.\<close>

fun truthy :: "json \<Rightarrow> bool" where
  "truthy JNull = False"
| "truthy (JBool b) = b"
| "truthy (JNum n) = (n \<noteq> Finite 0)"
| "truthy (JStr s) = (s \<noteq> [])"
| "truthy (JArr xs) = True"
| "truthy (JObj fs) = True"

datatype exn = TypeError

text \<open>
  Reading a member \<^verbatim>\<open>v.name\<close> of a parsed value, for the names the relay reads
  (\<^verbatim>\<open>message\<close>, \<^verbatim>\<open>metadata\<close>, \<^verbatim>\<open>transcript\<close>, \<^verbatim>\<open>reason\<close>; none of them is
  inherited from a prototype): \<^verbatim>\<open>null\<close> throws, an object gives its member or
  \<^verbatim>\<open>undefined\<close> (\<open>None\<close>), every other value gives \<^verbatim>\<open>undefined\<close>.
\<close>

fun get_prop :: "json \<Rightarrow> string \<Rightarrow> exn + json option" where
  "get_prop JNull name = Inl TypeError"
| "get_prop (JObj fs) name = Inr (map_of fs name)"
| "get_prop v name = Inr None"

text \<open>
  Optional chaining \<^verbatim>\<open>v?.name\<close> on a value that may be \<^verbatim>\<open>undefined\<close>: \<^verbatim>\<open>undefined\<close>
  and \<^verbatim>\<open>null\<close> give \<^verbatim>\<open>undefined\<close>, never an exception.
\<close>

fun get_prop_opt :: "json option \<Rightarrow> string \<Rightarrow> json option" where
  "get_prop_opt None name = None"
| "get_prop_opt (Some JNull) name = None"
| "get_prop_opt (Some (JObj fs)) name = map_of fs name"
| "get_prop_opt (Some v) name = None"

text \<open>\<^verbatim>\<open>v || d\<close> where \<open>v\<close> may be \<^verbatim>\<open>undefined\<close>.\<close>

fun or_default :: "json option \<Rightarrow> json \<Rightarrow> json" where
  "or_default None d = d"
| "or_default (Some v) d = (if truthy v then v else d)"

text \<open>
  The object literal handed to \<^verbatim>\<open>JSON.stringify\<close>: a member whose value is
  \<^verbatim>\<open>undefined\<close> is left out of the text.
\<close>

fun object :: "(string \<times> json option) list \<Rightarrow> json" where
  "object fs = JObj (concat (map (\<lambda>(k, v). case v of None \<Rightarrow> [] | Some x \<Rightarrow> [(k, x)]) fs))"

text \<open>
  The value that the text \<^verbatim>\<open>JSON.stringify(v)\<close> denotes: \<^verbatim>\<open>JSON.stringify\<close> writes
  \<^verbatim>\<open>null\<close> for an infinity, at any depth, and every other parsed value as it is.
\<close>

fun written :: "json \<Rightarrow> json" where
  "written JNull = JNull"
| "written (JBool b) = JBool b"
| "written (JNum n) = (case n of Finite r \<Rightarrow> JNum n | PosInfinity \<Rightarrow> JNull | NegInfinity \<Rightarrow> JNull)"
| "written (JStr s) = JStr s"
| "written (JArr xs) = JArr (map written xs)"
| "written (JObj fs) = JObj (map (\<lambda>(k, v). (k, written v)) fs)"

section \<open>Language selection\<close>

definition SUPPORTED_LANGUAGES :: "(string \<times> string) list" where
  "SUPPORTED_LANGUAGES =
     [(''ar'', ''ar''), (''en'', ''en''), (''es'', ''es''), (''fr'', ''fr''),
      (''de'', ''de''), (''it'', ''it''), (''pt'', ''pt''), (''ru'', ''ru''),
      (''zh'', ''zh''), (''ja'', ''ja''), (''ko'', ''ko'')]"

text \<open>
  \<^verbatim>\<open>SUPPORTED_LANGUAGES\<close> is an object literal, so a member read that misses the
  eleven own keys continues in \<^verbatim>\<open>Object.prototype\<close>, whose members are these.
\<close>

definition Object_prototype :: "string list" where
  "Object_prototype =
     [''constructor'', ''__defineGetter__'', ''__defineSetter__'', ''hasOwnProperty'',
      ''__lookupGetter__'', ''__lookupSetter__'', ''isPrototypeOf'',
      ''propertyIsEnumerable'', ''toString'', ''valueOf'', ''__proto__'',
      ''toLocaleString'']"

text \<open>
  What \<^verbatim>\<open>session.language\<close> can hold: nothing (the session literal has no such
  member), a string, or a member inherited from \<^verbatim>\<open>Object.prototype\<close> (a function, or
  the prototype object itself for \<^verbatim>\<open>__proto__\<close>).
\<close>

datatype js_value = Undefined | Str string | Inherited string

fun js_truthy :: "js_value \<Rightarrow> bool" where
  "js_truthy Undefined = False"
| "js_truthy (Str s) = (s \<noteq> [])"
| "js_truthy (Inherited n) = True"

text \<open>\<^verbatim>\<open>SUPPORTED_LANGUAGES[langParam]\<close>\<close>

definition lookup_language :: "string \<Rightarrow> js_value" where
  "lookup_language langParam =
     (case map_of SUPPORTED_LANGUAGES langParam of
        Some v \<Rightarrow> Str v
      | None \<Rightarrow> if langParam \<in> set Object_prototype then Inherited langParam else Undefined)"

text \<open>\<^verbatim>\<open>s.split(c)\<close> for a one-character separator: never empty.\<close>

fun String_split :: "char \<Rightarrow> string \<Rightarrow> string list" where
  "String_split c [] = [[]]"
| "String_split c (x # xs) =
     (if x = c then [] # String_split c xs
      else (case String_split c xs of
              [] \<Rightarrow> [[x]]
            | y # ys \<Rightarrow> (x # y) # ys))"

text \<open>
  \<^verbatim>\<open>new URLSearchParams(init)\<close> and \<^verbatim>\<open>.get(name)\<close>, after the
  \<^verbatim>\<open>application/x-www-form-urlencoded\<close> parser of the URL standard: split at
  \<^verbatim>\<open>&\<close>, skip empty pieces, split each piece at its first \<^verbatim>\<open>=\<close>, turn \<^verbatim>\<open>+\<close> into
  a space, percent-decode. Strings are byte lists here; the standard's final UTF-8
  decoding maps ASCII bytes to themselves and every other byte to a non-ASCII
  character, so a comparison with an ASCII name gives the same answer on the bytes.
\<close>

definition hex_value :: "char \<Rightarrow> nat option" where
  "hex_value c =
     (let n = (of_char c :: nat) in
      if 48 \<le> n \<and> n \<le> 57 then Some (n - 48)
      else if 65 \<le> n \<and> n \<le> 70 then Some (n - 55)
      else if 97 \<le> n \<and> n \<le> 102 then Some (n - 87)
      else None)"

fun percent_decode :: "string \<Rightarrow> string" where
  "percent_decode [] = []"
| "percent_decode [c] = [c]"
| "percent_decode [c, h] = [c, h]"
| "percent_decode (c # h # l # rest) =
     (if c = CHR ''%'' then
        (case (hex_value h, hex_value l) of
           (Some a, Some b) \<Rightarrow> char_of (16 * a + b) # percent_decode rest
         | _ \<Rightarrow> c # percent_decode (h # l # rest))
      else c # percent_decode (h # l # rest))"

definition plus_to_space :: "string \<Rightarrow> string" where
  "plus_to_space s = map (\<lambda>c. if c = CHR ''+'' then CHR '' '' else c) s"

definition parse_pair :: "string \<Rightarrow> string \<times> string" where
  "parse_pair bytes =
     (let name = takeWhile (\<lambda>c. c \<noteq> CHR ''='') bytes;
          val = drop 1 (dropWhile (\<lambda>c. c \<noteq> CHR ''='') bytes)
      in (percent_decode (plus_to_space name), percent_decode (plus_to_space val)))"

definition URLSearchParams :: "string \<Rightarrow> (string \<times> string) list" where
  "URLSearchParams init =
     (let input = (case init of c # rest \<Rightarrow> if c = CHR ''?'' then rest else init | [] \<Rightarrow> init)
      in map parse_pair (filter (\<lambda>piece. piece \<noteq> []) (String_split CHR ''&'' input)))"

definition URLSearchParams_get :: "(string \<times> string) list \<Rightarrow> string \<Rightarrow> string option" where
  "URLSearchParams_get params name = map_of params name"

text \<open>
  The body of the \<^verbatim>\<open>try\<close> block of the connection handler, as the value it assigns
  to \<^verbatim>\<open>session.language\<close>. On a string \<^verbatim>\<open>req.url\<close> none of its calls throws, so the
  \<^verbatim>\<open>catch\<close> branch (which only logs, leaving \<^verbatim>\<open>session.language\<close> unset) is never
  taken.
\<close>

definition parse_language :: "string \<Rightarrow> js_value" where
  "parse_language url =
     (let query = (case String_split CHR ''?'' url of
                     p # q # rest \<Rightarrow> q
                   | _ \<Rightarrow> []);
          urlParams = URLSearchParams query;
          langParam = (case URLSearchParams_get urlParams ''lang'' of
                         None \<Rightarrow> ''ar''
                       | Some v \<Rightarrow> if v = [] then ''ar'' else v);
          found = lookup_language langParam
      in if js_truthy found then found else Str ''ar'')"

section \<open>Sockets\<close>

text \<open>
  A WebSocket as the relay sees it: its \<^verbatim>\<open>readyState\<close>, the arguments of the
  \<^verbatim>\<open>send\<close> calls made on it, in order, and the number of \<^verbatim>\<open>ping\<close> calls. A
  message arrives as a string or as a \<^verbatim>\<open>Buffer\<close>; \<^verbatim>\<open>toString\<close> gives its text.
\<close>

datatype ready_state = CONNECTING | OPEN | CLOSING | CLOSED

datatype ws_data = StringData string | BufferData string

fun toString :: "ws_data \<Rightarrow> string" where
  "toString (StringData s) = s"
| "toString (BufferData b) = b"

text \<open>\<^verbatim>\<open>typeof data === 'string' || Buffer.isBuffer(data)\<close>\<close>

fun is_string_or_Buffer :: "ws_data \<Rightarrow> bool" where
  "is_string_or_Buffer (StringData s) = True"
| "is_string_or_Buffer (BufferData b) = True"

text \<open>
  What is handed to \<^verbatim>\<open>send\<close>: the text \<^verbatim>\<open>JSON.stringify(obj)\<close>, kept as the value
  that text denotes, or a message passed through as it came.
\<close>

datatype frame = Json json | Data ws_data

record socket =
  readyState :: ready_state
  sent :: "frame list"
  pings :: nat

definition ws_send :: "socket \<Rightarrow> frame \<Rightarrow> socket" where
  "ws_send ws f = ws\<lparr>sent := sent ws @ [f]\<rparr>"

definition ws_ping :: "socket \<Rightarrow> socket" where
  "ws_ping ws = ws\<lparr>pings := pings ws + 1\<rparr>"

text \<open>\<^verbatim>\<open>close()\<close> starts the closing handshake unless the socket is closed already.\<close>

definition ws_close :: "socket \<Rightarrow> socket" where
  "ws_close ws = (if readyState ws = CLOSED then ws else ws\<lparr>readyState := CLOSING\<rparr>)"

text \<open>The socket \<^verbatim>\<open>new WebSocket(url, options)\<close> returns, and an accepted client socket.\<close>

definition new_WebSocket :: socket where
  "new_WebSocket = \<lparr>readyState = CONNECTING, sent = [], pings = 0\<rparr>"

definition accepted_socket :: socket where
  "accepted_socket = \<lparr>readyState = OPEN, sent = [], pings = 0\<rparr>"

section \<open>The session registry\<close>

text \<open>
  \<^verbatim>\<open>activeSessions\<close> is a \<^verbatim>\<open>Map\<close>: \<^verbatim>\<open>set\<close> replaces the value of a key that is
  present and appends a new key otherwise, \<^verbatim>\<open>delete\<close> removes a key, \<^verbatim>\<open>size\<close> counts
  the keys.
\<close>

type_synonym 'v js_map = "(string \<times> 'v) list"

fun Map_set :: "string \<Rightarrow> 'v \<Rightarrow> 'v js_map \<Rightarrow> 'v js_map" where
  "Map_set k v [] = [(k, v)]"
| "Map_set k v ((k', v') # m) = (if k' = k then (k, v) # m else (k', v') # Map_set k v m)"

definition Map_delete :: "string \<Rightarrow> 'v js_map \<Rightarrow> 'v js_map" where
  "Map_delete k m = filter (\<lambda>e. fst e \<noteq> k) m"

definition Map_size :: "'v js_map \<Rightarrow> nat" where
  "Map_size m = length m"

definition Map_has :: "'v js_map \<Rightarrow> string \<Rightarrow> bool" where
  "Map_has m k = (k \<in> set (map fst m))"

definition MAX_CONCURRENT_SESSIONS :: nat where
  "MAX_CONCURRENT_SESSIONS = 2"

section \<open>Sessions and their handlers\<close>

record session =
  sessionId :: string
  clientWs :: socket
  speechmaticsWs :: "socket option"
  closed :: bool
  audioReceived :: bool
  pingInterval :: bool
  language :: js_value

text \<open>
  \<open>pingInterval\<close> tells whether the interval timer is still scheduled;
  \<^verbatim>\<open>clearInterval\<close> unschedules it.
\<close>

text \<open>
  \<^verbatim>\<open>clientWs.send(JSON.stringify(obj))\<close>. The objects sent upstream and the capacity
  error are literals of the relay with no infinity in them, so for them the text
  denotes the object itself.
\<close>

definition client_send :: "session \<Rightarrow> json \<Rightarrow> session" where
  "client_send session obj =
     session\<lparr>clientWs := ws_send (clientWs session) (Json (written obj))\<rparr>"

definition upstream_send :: "session \<Rightarrow> frame \<Rightarrow> session" where
  "upstream_send session f =
     session\<lparr>speechmaticsWs := map_option (\<lambda>ws. ws_send ws f) (speechmaticsWs session)\<rparr>"

text \<open>The callback of \<^verbatim>\<open>setInterval(..., 30000)\<close>.\<close>

definition pingInterval_tick :: "session \<Rightarrow> session" where
  "pingInterval_tick session =
     (if \<not> closed session \<and> readyState (clientWs session) = OPEN
      then session\<lparr>clientWs := ws_ping (clientWs session)\<rparr>
      else session)"

definition selectedFormat :: json where
  "selectedFormat =
     JObj [(''type'', JStr ''raw''), (''sample_rate'', JNum (Finite 16000)),
           (''encoding'', JStr ''pcm_s16le'')]"

text \<open>
  What \<^verbatim>\<open>JSON.stringify\<close> writes for \<^verbatim>\<open>session.language\<close>: a string as it is,
  \<^verbatim>\<open>{}\<close> for the prototype object, nothing for \<^verbatim>\<open>undefined\<close> or a function.
\<close>

fun language_json :: "js_value \<Rightarrow> json option" where
  "language_json Undefined = None"
| "language_json (Str s) = Some (JStr s)"
| "language_json (Inherited n) = (if n = ''__proto__'' then Some (JObj []) else None)"

definition speechmaticsWs_on_open :: "session \<Rightarrow> session" where
  "speechmaticsWs_on_open session =
     (let started = upstream_send session
            (Json (object
               [(''message'', Some (JStr ''StartRecognition'')),
                (''transcription_config'', Some (object
                   [(''language'', language_json (language session)),
                    (''diarization'', Some (JStr ''none'')),
                    (''operating_point'', Some (JStr ''enhanced'')),
                    (''max_delay_mode'', Some (JStr ''flexible'')),
                    (''max_delay'', Some (JNum (Finite 1))),
                    (''enable_partials'', Some (JBool True)),
                    (''enable_entities'', Some (JBool True))])),
                (''audio_format'', Some selectedFormat)]))
      in client_send started
           (JObj [(''type'', JStr ''ready''),
                  (''message'', JStr ''Ready to receive audio''),
                  (''audio_format'', selectedFormat)]))"

text \<open>
  The handlers take \<^verbatim>\<open>JSON.parse\<close> as a parameter: \<open>None\<close> where it throws a
  \<^verbatim>\<open>SyntaxError\<close>. In the upstream message handler every exception of the body is
  caught and logged, which leaves the session as it was at the throw.
\<close>

definition speechmaticsWs_on_message ::
  "(string \<Rightarrow> json option) \<Rightarrow> session \<Rightarrow> ws_data \<Rightarrow> session" where
  "speechmaticsWs_on_message JSON_parse session data =
     (if closed session then session
      else case JSON_parse (toString data) of
        None \<Rightarrow> session
      | Some msg \<Rightarrow>
          (case get_prop msg ''message'' of
             Inl e \<Rightarrow> session
           | Inr m \<Rightarrow>
               if m = Some (JStr ''RecognitionStarted'') then
                 client_send session
                   (JObj [(''type'', JStr ''recognition_started''),
                          (''message'', JStr ''Speech recognition active'')])
               else if m = Some (JStr ''AddPartialTranscript'') \<or> m = Some (JStr ''AddTranscript'') then
                 (let transcript =
                        or_default (get_prop_opt (get_prop_opt (Some msg) ''metadata'') ''transcript'')
                          (JStr [])
                  in client_send session
                       (JObj [(''type'', JStr (if m = Some (JStr ''AddTranscript'') then ''final'' else ''partial'')),
                              (''transcript'', transcript)]))
               else if m = Some (JStr ''AudioAdded'') then
                 (if \<not> audioReceived session then session\<lparr>audioReceived := True\<rparr> else session)
               else if m = Some (JStr ''Error'') then
                 client_send session
                   (JObj [(''type'', JStr ''error''),
                          (''message'', or_default (get_prop_opt (Some msg) ''reason'') (JStr ''Speechmatics error'')),
                          (''details'', msg)])
               else if m = Some (JStr ''Warning'') then
                 client_send session
                   (JObj [(''type'', JStr ''warning''),
                          (''message'', or_default (get_prop_opt (Some msg) ''reason'') (JStr ''Speechmatics warning''))])
               else session))"

text \<open>
  The upstream close handler gets the close code and the reason
  (\<^verbatim>\<open>reason?.toString()\<close>, \<open>None\<close> when there is none); the error handlers get
  \<^verbatim>\<open>err.message\<close>.
\<close>

definition speechmaticsWs_on_close :: "session \<Rightarrow> int \<Rightarrow> string option \<Rightarrow> session" where
  "speechmaticsWs_on_close session code reason =
     (if \<not> closed session then
        client_send session
          (object [(''type'', Some (JStr ''speechmatics_disconnected'')),
                   (''message'', Some (JStr ''Speechmatics connection closed'')),
                   (''code'', Some (JNum (Finite (of_int code)))),
                   (''reason'', map_option JStr reason)])
      else session)"

definition speechmaticsWs_on_error :: "session \<Rightarrow> string option \<Rightarrow> session" where
  "speechmaticsWs_on_error session err_message =
     (if \<not> closed session then
        client_send session
          (object [(''type'', Some (JStr ''error'')),
                   (''message'', Some (JStr ''Speechmatics connection error'')),
                   (''details'', map_option JStr err_message)])
      else session)"

text \<open>
  \<^verbatim>\<open>setupSpeechmatics\<close>: the constructor either returns the upstream socket, which
  is stored in the session before the handlers are attached, or throws, and the
  \<^verbatim>\<open>catch\<close> branch reports to the client.
\<close>

datatype ctor_result = Constructed | Throws "string option"

definition setupSpeechmatics :: "ctor_result \<Rightarrow> session \<Rightarrow> session" where
  "setupSpeechmatics ctor session =
     (case ctor of
        Constructed \<Rightarrow> session\<lparr>speechmaticsWs := Some new_WebSocket\<rparr>
      | Throws err_message \<Rightarrow>
          client_send session
            (object [(''type'', Some (JStr ''error'')),
                     (''message'', Some (JStr ''Failed to setup Speechmatics connection'')),
                     (''details'', map_option JStr err_message)]))"

definition clientWs_on_message ::
  "(string \<Rightarrow> json option) \<Rightarrow> session \<Rightarrow> ws_data \<Rightarrow> session" where
  "clientWs_on_message JSON_parse session data =
     (if closed session then session
      else if is_string_or_Buffer data \<and> JSON_parse (toString data) \<noteq> None then session
      else (case speechmaticsWs session of
              None \<Rightarrow> session
            | Some ws \<Rightarrow>
                if readyState ws = OPEN
                then session\<lparr>speechmaticsWs := Some (ws_send ws (Data data))\<rparr>
                else session))"

definition clientWs_on_close :: "nat js_map \<Rightarrow> session \<Rightarrow> nat js_map \<times> session" where
  "clientWs_on_close registry session =
     (let session1 = session\<lparr>closed := True\<rparr>;
          session2 = session1\<lparr>pingInterval := False\<rparr>;
          session3 =
            (case speechmaticsWs session2 of
               None \<Rightarrow> session2
             | Some ws \<Rightarrow>
                 (let ws1 = (if readyState ws = OPEN
                             then ws_send ws (Json (JObj [(''message'', JStr ''EndOfStream'')]))
                             else ws)
                  in session2\<lparr>speechmaticsWs := Some (ws_close ws1)\<rparr>))
      in (Map_delete (sessionId session) registry, session3))"

definition clientWs_on_error :: "nat js_map \<Rightarrow> session \<Rightarrow> nat js_map \<times> session" where
  "clientWs_on_error registry session =
     (let session1 = session\<lparr>closed := True\<rparr>;
          session2 = session1\<lparr>pingInterval := False\<rparr>;
          session3 =
            (case speechmaticsWs session2 of
               None \<Rightarrow> session2
             | Some ws \<Rightarrow> session2\<lparr>speechmaticsWs := Some (ws_close ws)\<rparr>)
      in (Map_delete (sessionId session) registry, session3))"

section \<open>The connection acceptor and the server\<close>

record request =
  sec_websocket_key :: string
  url :: string

text \<open>
  A connection either was turned away (no handler is attached to its socket) or
  owns the session object its handlers close over. The registry maps a session id to
  the number of the connection whose session was stored under it.
\<close>

datatype connection = Rejected socket | Accepted session

record server =
  activeSessions :: "nat js_map"
  connections :: "connection list"

definition initial_server :: server where
  "initial_server = \<lparr>activeSessions = [], connections = []\<rparr>"

definition capacity_error :: json where
  "capacity_error =
     JObj [(''type'', JStr ''error''),
           (''message'', JStr ''Server at capacity. Please try again later.'')]"

definition wss_on_connection :: "server \<Rightarrow> request \<Rightarrow> ctor_result \<Rightarrow> server" where
  "wss_on_connection server req ctor =
     (let sid = sec_websocket_key req in
      if MAX_CONCURRENT_SESSIONS \<le> Map_size (activeSessions server) then
        server\<lparr>connections := connections server @
                 [Rejected (ws_close (ws_send accepted_socket (Json capacity_error)))]\<rparr>
      else
        (let session0 = \<lparr>sessionId = sid, clientWs = accepted_socket, speechmaticsWs = None,
                          closed = False, audioReceived = False, pingInterval = True,
                          language = Undefined\<rparr>;
             session1 = session0\<lparr>language := parse_language (url req)\<rparr>;
             registry = Map_set sid (length (connections server)) (activeSessions server)
         in \<lparr>activeSessions = registry,
             connections = connections server @ [Accepted (setupSpeechmatics ctor session1)]\<rparr>))"

text \<open>
  What can happen to the server: a connection arrives (and the upstream constructor
  returns or throws), an event of a socket reaches the handler attached to it, the
  interval timer fires, or the transport changes the \<^verbatim>\<open>readyState\<close> of a socket on
  its own. An event of a socket that does not exist, or of a timer that was cleared,
  changes nothing.
\<close>

datatype event =
    Connection request ctor_result
  | ClientMessage nat ws_data
  | ClientClose nat
  | ClientError nat
  | PingTick nat
  | UpstreamOpen nat
  | UpstreamMessage nat ws_data
  | UpstreamClose nat int "string option"
  | UpstreamError nat "string option"
  | ClientTransport nat ready_state
  | UpstreamTransport nat ready_state

definition update_session :: "nat \<Rightarrow> (session \<Rightarrow> session) \<Rightarrow> server \<Rightarrow> server" where
  "update_session n f server =
     (if n < length (connections server) then
        (case connections server ! n of
           Rejected ws \<Rightarrow> server
         | Accepted s \<Rightarrow> server\<lparr>connections := (connections server)[n := Accepted (f s)]\<rparr>)
      else server)"

definition teardown ::
  "(nat js_map \<Rightarrow> session \<Rightarrow> nat js_map \<times> session) \<Rightarrow> nat \<Rightarrow> server \<Rightarrow> server" where
  "teardown handler n server =
     (if n < length (connections server) then
        (case connections server ! n of
           Rejected ws \<Rightarrow> server
         | Accepted s \<Rightarrow>
             (case handler (activeSessions server) s of
                (registry, s') \<Rightarrow>
                  \<lparr>activeSessions = registry,
                   connections = (connections server)[n := Accepted s']\<rparr>))
      else server)"

definition on_upstream :: "(session \<Rightarrow> session) \<Rightarrow> session \<Rightarrow> session" where
  "on_upstream handler s = (if speechmaticsWs s = None then s else handler s)"

fun step :: "(string \<Rightarrow> json option) \<Rightarrow> server \<Rightarrow> event \<Rightarrow> server" where
  "step P server (Connection req ctor) = wss_on_connection server req ctor"
| "step P server (ClientMessage n data) =
     update_session n (\<lambda>s. clientWs_on_message P s data) server"
| "step P server (ClientClose n) = teardown clientWs_on_close n server"
| "step P server (ClientError n) = teardown clientWs_on_error n server"
| "step P server (PingTick n) =
     update_session n (\<lambda>s. if pingInterval s then pingInterval_tick s else s) server"
| "step P server (UpstreamOpen n) =
     update_session n (on_upstream speechmaticsWs_on_open) server"
| "step P server (UpstreamMessage n data) =
     update_session n (on_upstream (\<lambda>s. speechmaticsWs_on_message P s data)) server"
| "step P server (UpstreamClose n code reason) =
     update_session n (on_upstream (\<lambda>s. speechmaticsWs_on_close s code reason)) server"
| "step P server (UpstreamError n err_message) =
     update_session n (on_upstream (\<lambda>s. speechmaticsWs_on_error s err_message)) server"
| "step P server (ClientTransport n rs) =
     update_session n (\<lambda>s. s\<lparr>clientWs := (clientWs s)\<lparr>readyState := rs\<rparr>\<rparr>) server"
| "step P server (UpstreamTransport n rs) =
     update_session n
       (\<lambda>s. s\<lparr>speechmaticsWs := map_option (\<lambda>ws. ws\<lparr>readyState := rs\<rparr>) (speechmaticsWs s)\<rparr>)
       server"

definition run :: "(string \<Rightarrow> json option) \<Rightarrow> server \<Rightarrow> event list \<Rightarrow> server" where
  "run P server evs = foldl (step P) server evs"

text \<open>
  A stand-in for \<^verbatim>\<open>JSON.parse\<close> to run the handlers on: it reads the five texts
  used as examples and rejects every other text. The theorems hold for every parser.
\<close>

definition example_parse :: "string \<Rightarrow> json option" where
  \<open>example_parse text =
     (if text = ''12'' then Some (JNum (Finite 12))
      else if text = ''{"message":"AudioAdded"}'' then
        Some (JObj [(''message'', JStr ''AudioAdded'')])
      else if text = ''{"message":"AddPartialTranscript","metadata":{"transcript":"hello"}}'' then
        Some (JObj [(''message'', JStr ''AddPartialTranscript''),
                    (''metadata'', JObj [(''transcript'', JStr ''hello'')])])
      else if text = ''{"message":"AddPartialTranscript","metadata":{"transcript":0}}'' then
        Some (JObj [(''message'', JStr ''AddPartialTranscript''),
                    (''metadata'', JObj [(''transcript'', JNum (Finite 0))])])
      else if text = ''{"message":"AddPartialTranscript","metadata":{"transcript":1e400}}'' then
        Some (JObj [(''message'', JStr ''AddPartialTranscript''),
                    (''metadata'', JObj [(''transcript'', JNum PosInfinity)])])
      else None)\<close>

text \<open>
  Observations of a server state: the session of a connection, what was sent upstream
  and to the client for it, and the number of sessions that were admitted and are not
  closed.
\<close>

definition session_at :: "server \<Rightarrow> nat \<Rightarrow> session option" where
  "session_at server n =
     (if n < length (connections server) then
        (case connections server ! n of Rejected ws \<Rightarrow> None | Accepted s \<Rightarrow> Some s)
      else None)"

definition upstream_sent :: "server \<Rightarrow> nat \<Rightarrow> frame list" where
  "upstream_sent server n =
     (case session_at server n of
        None \<Rightarrow> []
      | Some s \<Rightarrow> (case speechmaticsWs s of None \<Rightarrow> [] | Some ws \<Rightarrow> sent ws))"

definition client_sent :: "server \<Rightarrow> nat \<Rightarrow> frame list" where
  "client_sent server n =
     (case session_at server n of None \<Rightarrow> [] | Some s \<Rightarrow> sent (clientWs s))"

fun is_live :: "connection \<Rightarrow> bool" where
  "is_live (Rejected ws) = False"
| "is_live (Accepted s) = (\<not> closed s)"

definition live_sessions :: "server \<Rightarrow> nat" where
  "live_sessions server = length (filter is_live (connections server))"

section \<open>Facts about the registry\<close>

lemma keys_Map_set: "fst ` set (Map_set k v m) = insert k (fst ` set m)"
  by (induction m) (force simp: image_iff)+

lemma Map_size_set_le: "Map_size (Map_set k v m) \<le> Suc (Map_size m)"
  by (induction m) (auto simp: Map_size_def)

lemma Map_size_set_fresh: "\<not> Map_has m k \<Longrightarrow> Map_size (Map_set k v m) = Suc (Map_size m)"
  by (induction m) (auto simp: Map_size_def Map_has_def)

lemma Map_size_set_present: "Map_has m k \<Longrightarrow> Map_size (Map_set k v m) = Map_size m"
  by (induction m) (force simp: Map_size_def Map_has_def)+

lemma map_of_Map_set: "map_of (Map_set k v m) k = Some v"
  by (induction m) auto

lemma Map_size_delete_le: "Map_size (Map_delete k m) \<le> Map_size m"
  by (simp add: Map_size_def Map_delete_def)

lemma Map_delete_idem: "Map_delete k (Map_delete k m) = Map_delete k m"
  by (simp add: Map_delete_def)

lemma Map_has_delete: "\<not> Map_has (Map_delete k m) k"
  by (auto simp: Map_has_def Map_delete_def)

lemma distinct_Map_set: "distinct (map fst m) \<Longrightarrow> distinct (map fst (Map_set k v m))"
  by (induction m) (auto simp: keys_Map_set)

lemma distinct_Map_delete: "distinct (map fst m) \<Longrightarrow> distinct (map fst (Map_delete k m))"
  by (simp add: Map_delete_def distinct_map_filter)

lemma Map_delete_absent: "\<not> Map_has m k \<Longrightarrow> Map_delete k m = m"
  by (induction m) (auto simp: Map_has_def Map_delete_def)

lemma Map_size_delete_present:
  "distinct (map fst m) \<Longrightarrow> Map_has m k \<Longrightarrow> Suc (Map_size (Map_delete k m)) = Map_size m"
proof (induction m)
  case Nil
  then show ?case by (simp add: Map_has_def)
next
  case (Cons e m)
  show ?case
  proof (cases "fst e = k")
    case True
    with Cons.prems have "\<not> Map_has m k" by (auto simp: Map_has_def)
    then have "Map_delete k m = m" by (rule Map_delete_absent)
    with True show ?thesis by (simp add: Map_size_def Map_delete_def)
  next
    case False
    with Cons show ?thesis by (auto simp: Map_size_def Map_delete_def Map_has_def)
  qed
qed


section \<open>The admission cap\<close>

lemma activeSessions_update_session [simp]:
  "activeSessions (update_session n f server) = activeSessions server"
  by (simp add: update_session_def split: connection.split)

lemma fst_clientWs_on_close [simp]:
  "fst (clientWs_on_close registry s) = Map_delete (sessionId s) registry"
  by (simp add: clientWs_on_close_def Let_def)

lemma fst_clientWs_on_error [simp]:
  "fst (clientWs_on_error registry s) = Map_delete (sessionId s) registry"
  by (simp add: clientWs_on_error_def Let_def)

lemma size_teardown:
  assumes "\<And>registry s. fst (handler registry s) = Map_delete (sessionId s) registry"
  shows "Map_size (activeSessions (teardown handler n server)) \<le> Map_size (activeSessions server)"
proof (cases "n < length (connections server)")
  case False
  then show ?thesis by (simp add: teardown_def)
next
  case True
  show ?thesis
  proof (cases "connections server ! n")
    case (Rejected ws)
    with True show ?thesis by (simp add: teardown_def)
  next
    case (Accepted s)
    obtain registry s' where h: "handler (activeSessions server) s = (registry, s')"
      by (cases "handler (activeSessions server) s")
    with assms [of "activeSessions server" s]
    have "registry = Map_delete (sessionId s) (activeSessions server)" by simp
    with True Accepted h show ?thesis
      by (simp add: teardown_def Map_size_delete_le)
  qed
qed

lemma size_wss_on_connection:
  "Map_size (activeSessions server) \<le> 2 \<Longrightarrow>
   Map_size (activeSessions (wss_on_connection server req ctor)) \<le> 2"
  using Map_size_set_le [of "sec_websocket_key req" "length (connections server)" "activeSessions server"]
  by (auto simp: wss_on_connection_def MAX_CONCURRENT_SESSIONS_def Let_def)

lemma size_step:
  "Map_size (activeSessions server) \<le> 2 \<Longrightarrow> Map_size (activeSessions (step P server e)) \<le> 2"
proof (cases e)
  case (Connection req ctor)
  assume "Map_size (activeSessions server) \<le> 2"
  with Connection show ?thesis by (simp add: size_wss_on_connection)
next
  case (ClientClose n)
  assume "Map_size (activeSessions server) \<le> 2"
  with ClientClose size_teardown [of clientWs_on_close n server] show ?thesis by simp
next
  case (ClientError n)
  assume "Map_size (activeSessions server) \<le> 2"
  with ClientError size_teardown [of clientWs_on_error n server] show ?thesis by simp
qed simp_all

lemma size_run:
  "Map_size (activeSessions server) \<le> 2 \<Longrightarrow> Map_size (activeSessions (run P server evs)) \<le> 2"
  unfolding run_def
  by (induction evs arbitrary: server) (simp_all add: size_step)

lemma wss_on_connection_full:
  "2 \<le> Map_size (activeSessions server) \<Longrightarrow>
   wss_on_connection server req ctor =
     server\<lparr>connections := connections server @
       [Rejected \<lparr>readyState = CLOSING,
                  sent = [Json (JObj [(''type'', JStr ''error''),
                                      (''message'', JStr ''Server at capacity. Please try again later.'')])],
                  pings = 0\<rparr>]\<rparr>"
  by (simp add: wss_on_connection_def MAX_CONCURRENT_SESSIONS_def Let_def ws_close_def ws_send_def
      accepted_socket_def capacity_error_def)

lemma sessionId_setupSpeechmatics [simp]:
  "sessionId (setupSpeechmatics ctor s) = sessionId s"
  by (simp add: setupSpeechmatics_def client_send_def split: ctor_result.split)

lemma closed_setupSpeechmatics [simp]:
  "closed (setupSpeechmatics ctor s) = closed s"
  by (simp add: setupSpeechmatics_def client_send_def split: ctor_result.split)

lemma wss_on_connection_admit:
  assumes "Map_size (activeSessions server) < 2"
  shows "activeSessions (wss_on_connection server req ctor) =
           Map_set (sec_websocket_key req) (length (connections server)) (activeSessions server)"
    and "\<exists>s. connections (wss_on_connection server req ctor) = connections server @ [Accepted s]
             \<and> sessionId s = sec_websocket_key req \<and> \<not> closed s"
  using assms by (simp_all add: wss_on_connection_def MAX_CONCURRENT_SESSIONS_def Let_def)

text \<open>
  What holds of admission: the registry never has more than 2 keys; a connection that
  arrives when it has 2 or more is sent one error event with the capacity message and
  closed, the registry being left as it was; a connection that arrives when it has
  fewer than 2 is stored under its session id, which adds a key when the id is new and
  replaces the entry when the id is a key already.
\<close>

lemma registry_cap_and_admission:
  "Map_size (activeSessions (run P initial_server evs)) \<le> 2
   \<and> (2 \<le> Map_size (activeSessions server) \<longrightarrow>
        wss_on_connection server req ctor =
          server\<lparr>connections := connections server @
            [Rejected \<lparr>readyState = CLOSING,
                       sent = [Json (JObj [(''type'', JStr ''error''),
                                           (''message'', JStr ''Server at capacity. Please try again later.'')])],
                       pings = 0\<rparr>]\<rparr>)
   \<and> (Map_size (activeSessions server) < 2 \<longrightarrow>
        map_of (activeSessions (wss_on_connection server req ctor)) (sec_websocket_key req)
          = Some (length (connections server))
        \<and> (\<exists>s. connections (wss_on_connection server req ctor) = connections server @ [Accepted s]
               \<and> sessionId s = sec_websocket_key req \<and> \<not> closed s)
        \<and> Map_size (activeSessions (wss_on_connection server req ctor)) =
            (if Map_has (activeSessions server) (sec_websocket_key req)
             then Map_size (activeSessions server)
             else Map_size (activeSessions server) + 1))"
proof (intro conjI impI)
  show "Map_size (activeSessions (run P initial_server evs)) \<le> 2"
    by (rule size_run) (simp add: initial_server_def Map_size_def)
next
  assume "2 \<le> Map_size (activeSessions server)"
  then show "wss_on_connection server req ctor =
          server\<lparr>connections := connections server @
            [Rejected \<lparr>readyState = CLOSING,
                       sent = [Json (JObj [(''type'', JStr ''error''),
                                           (''message'', JStr ''Server at capacity. Please try again later.'')])],
                       pings = 0\<rparr>]\<rparr>"
    by (rule wss_on_connection_full)
next
  assume small: "Map_size (activeSessions server) < 2"
  then show "map_of (activeSessions (wss_on_connection server req ctor)) (sec_websocket_key req)
          = Some (length (connections server))"
    by (simp add: wss_on_connection_admit(1) map_of_Map_set)
  from small show "\<exists>s. connections (wss_on_connection server req ctor) = connections server @ [Accepted s]
               \<and> sessionId s = sec_websocket_key req \<and> \<not> closed s"
    by (rule wss_on_connection_admit(2))
  from small show "Map_size (activeSessions (wss_on_connection server req ctor)) =
            (if Map_has (activeSessions server) (sec_websocket_key req)
             then Map_size (activeSessions server)
             else Map_size (activeSessions server) + 1)"
    by (simp add: wss_on_connection_admit(1) Map_size_set_fresh Map_size_set_present)
qed

lemmas eval_defs =
  run_def initial_server_def wss_on_connection_def MAX_CONCURRENT_SESSIONS_def Map_size_def
  Map_has_def Map_delete_def Let_def ws_close_def ws_send_def accepted_socket_def
  capacity_error_def setupSpeechmatics_def new_WebSocket_def client_send_def

lemma registry_cap_and_admission_example:
  "Map_size (activeSessions (run example_parse initial_server
      [Connection \<lparr>sec_websocket_key = ''k1'', url = ''/''\<rparr> Constructed,
       Connection \<lparr>sec_websocket_key = ''k2'', url = ''/''\<rparr> Constructed,
       Connection \<lparr>sec_websocket_key = ''k3'', url = ''/''\<rparr> Constructed])) \<le> 2
   \<and> 2 \<le> Map_size (activeSessions \<lparr>activeSessions = [(''k1'', 0), (''k2'', 1)], connections = []\<rparr>)
   \<and> wss_on_connection \<lparr>activeSessions = [(''k1'', 0), (''k2'', 1)], connections = []\<rparr>
        \<lparr>sec_websocket_key = ''k3'', url = ''/''\<rparr> Constructed =
        \<lparr>activeSessions = [(''k1'', 0), (''k2'', 1)],
         connections = [Rejected \<lparr>readyState = CLOSING,
                       sent = [Json (JObj [(''type'', JStr ''error''),
                                           (''message'', JStr ''Server at capacity. Please try again later.'')])],
                       pings = 0\<rparr>]\<rparr>
   \<and> Map_size (activeSessions initial_server) < 2
   \<and> Map_size (activeSessions (wss_on_connection initial_server
        \<lparr>sec_websocket_key = ''k1'', url = ''/''\<rparr> Constructed)) = 1"
  using registry_cap_and_admission [of example_parse
      "[Connection \<lparr>sec_websocket_key = ''k1'', url = ''/''\<rparr> Constructed,
       Connection \<lparr>sec_websocket_key = ''k2'', url = ''/''\<rparr> Constructed,
       Connection \<lparr>sec_websocket_key = ''k3'', url = ''/''\<rparr> Constructed]"
      "\<lparr>activeSessions = [(''k1'', 0), (''k2'', 1)], connections = []\<rparr>"
      "\<lparr>sec_websocket_key = ''k3'', url = ''/''\<rparr>" Constructed]
    registry_cap_and_admission [of example_parse "[]" initial_server
      "\<lparr>sec_websocket_key = ''k1'', url = ''/''\<rparr>" Constructed]
  by (simp add: Map_size_def Map_has_def initial_server_def)

text \<open>
  C1. Three connections that present the same \<^verbatim>\<open>Sec-WebSocket-Key\<close> are all admitted:
  each arrives when the registry holds fewer than 2 sessions, yet the registry size
  does not grow by 1 with the second and the third, it stays 1, while three sessions
  that are not closed exist. When the first of them disconnects, the registry is empty
  and two sessions are still live.
\<close>

theorem same_key_bypasses_cap:
  "Map_size (activeSessions (run example_parse initial_server
      [Connection \<lparr>sec_websocket_key = ''k1'', url = ''/''\<rparr> Constructed])) = 1
   \<and> Map_size (activeSessions (run example_parse initial_server
      [Connection \<lparr>sec_websocket_key = ''k1'', url = ''/''\<rparr> Constructed,
       Connection \<lparr>sec_websocket_key = ''k1'', url = ''/''\<rparr> Constructed])) = 1
   \<and> Map_size (activeSessions (run example_parse initial_server
      [Connection \<lparr>sec_websocket_key = ''k1'', url = ''/''\<rparr> Constructed,
       Connection \<lparr>sec_websocket_key = ''k1'', url = ''/''\<rparr> Constructed,
       Connection \<lparr>sec_websocket_key = ''k1'', url = ''/''\<rparr> Constructed])) = 1
   \<and> live_sessions (run example_parse initial_server
      [Connection \<lparr>sec_websocket_key = ''k1'', url = ''/''\<rparr> Constructed,
       Connection \<lparr>sec_websocket_key = ''k1'', url = ''/''\<rparr> Constructed,
       Connection \<lparr>sec_websocket_key = ''k1'', url = ''/''\<rparr> Constructed]) = 3
   \<and> Map_size (activeSessions (run example_parse initial_server
      [Connection \<lparr>sec_websocket_key = ''k1'', url = ''/''\<rparr> Constructed,
       Connection \<lparr>sec_websocket_key = ''k1'', url = ''/''\<rparr> Constructed,
       Connection \<lparr>sec_websocket_key = ''k1'', url = ''/''\<rparr> Constructed,
       ClientClose 0])) = 0
   \<and> live_sessions (run example_parse initial_server
      [Connection \<lparr>sec_websocket_key = ''k1'', url = ''/''\<rparr> Constructed,
       Connection \<lparr>sec_websocket_key = ''k1'', url = ''/''\<rparr> Constructed,
       Connection \<lparr>sec_websocket_key = ''k1'', url = ''/''\<rparr> Constructed,
       ClientClose 0]) = 2"
  by (simp add: eval_defs live_sessions_def teardown_def clientWs_on_close_def)

section \<open>Language resolution\<close>

lemma supported_codes_resolve:
  "\<forall>code \<in> set (map fst SUPPORTED_LANGUAGES). parse_language (''/?lang='' @ code) = Str code"
  by (simp add: parse_language_def URLSearchParams_def URLSearchParams_get_def parse_pair_def
      plus_to_space_def lookup_language_def SUPPORTED_LANGUAGES_def Object_prototype_def)

lemma unsupported_zz_and_absent_resolve:
  "parse_language ''/?lang=zz'' = Str ''ar''"
  "parse_language ''/'' = Str ''ar''"
  "parse_language ''/?lang=%zz&=&&'' = Str ''ar''"
  by (simp_all add: parse_language_def URLSearchParams_def URLSearchParams_get_def parse_pair_def
      plus_to_space_def lookup_language_def SUPPORTED_LANGUAGES_def Object_prototype_def
      hex_value_def)

lemma lookup_language_cases:
  "js_truthy (lookup_language k) \<Longrightarrow>
   lookup_language k = Str k \<and> k \<in> set (map fst SUPPORTED_LANGUAGES)
   \<or> lookup_language k = Inherited k \<and> k \<in> set Object_prototype"
  by (auto simp: lookup_language_def SUPPORTED_LANGUAGES_def split: option.splits if_splits)

lemma parse_language_range:
  "parse_language target = Str ''ar''
   \<or> (\<exists>code \<in> set (map fst SUPPORTED_LANGUAGES). parse_language target = Str code)
   \<or> (\<exists>name \<in> set Object_prototype. parse_language target = Inherited name)"
proof -
  obtain k where k: "parse_language target =
      (if js_truthy (lookup_language k) then lookup_language k else Str ''ar'')"
    by (simp add: parse_language_def Let_def)
  show ?thesis
  proof (cases "js_truthy (lookup_language k)")
    case False
    with k show ?thesis by simp
  next
    case True
    from lookup_language_cases [OF True] k True show ?thesis by auto
  qed
qed

text \<open>
  C7. Language resolution: \<^verbatim>\<open>lang=constructor\<close> is not one of the eleven
  supported codes, yet the session language is not \<^verbatim>\<open>ar\<close>: the table lookup finds the
  member \<^verbatim>\<open>constructor\<close> that the table inherits, and the start message sent upstream
  then carries no language at all.
\<close>

theorem inherited_name_is_not_defaulted:
  "parse_language ''/?lang=constructor'' = Inherited ''constructor''
   \<and> ''constructor'' \<notin> set (map fst SUPPORTED_LANGUAGES)
   \<and> language_json (parse_language ''/?lang=constructor'') = None"
  by (simp add: parse_language_def URLSearchParams_def URLSearchParams_get_def parse_pair_def
      plus_to_space_def lookup_language_def SUPPORTED_LANGUAGES_def Object_prototype_def)

section \<open>Traffic after close\<close>

lemma update_session_id:
  "session_at server n = Some s \<Longrightarrow> f s = s \<Longrightarrow> update_session n f server = server"
proof -
  assume at: "session_at server n = Some s" and same: "f s = s"
  from at have n: "n < length (connections server)" and c: "connections server ! n = Accepted s"
    by (auto simp: session_at_def split: if_splits connection.splits)
  from c have "(connections server)[n := Accepted s] = connections server"
    by (metis list_update_id)
  with n c same show ?thesis by (simp add: update_session_def)
qed

text \<open>
  C2. Once the \<open>closed\<close> flag of a session is true, a frame from the client and a
  message from upstream leave the session exactly as it was, so nothing is sent to
  either socket; the same holds for any number of frames and messages, and for the
  server as a whole.
\<close>

theorem no_forwarding_once_closed:
  "closed s \<Longrightarrow>
     clientWs_on_message P s frame = s
   \<and> speechmaticsWs_on_message P s message = s
   \<and> foldl (clientWs_on_message P) s frames = s
   \<and> foldl (speechmaticsWs_on_message P) s messages = s
   \<and> (session_at server n = Some s \<longrightarrow>
        step P server (ClientMessage n frame) = server
      \<and> step P server (UpstreamMessage n message) = server)"
proof -
  assume cl: "closed s"
  have c: "clientWs_on_message P s x = s" for x
    using cl by (simp add: clientWs_on_message_def)
  have u: "speechmaticsWs_on_message P s x = s" for x
    using cl by (simp add: speechmaticsWs_on_message_def)
  have cs: "foldl (clientWs_on_message P) s frames = s"
    by (induction frames) (simp_all add: c)
  have us: "foldl (speechmaticsWs_on_message P) s messages = s"
    by (induction messages) (simp_all add: u)
  have srv: "step P server (ClientMessage n frame) = server
      \<and> step P server (UpstreamMessage n message) = server"
    if "session_at server n = Some s"
    using that by (simp add: update_session_id on_upstream_def c u)
  from c u cs us srv show ?thesis by simp
qed

theorem no_forwarding_once_closed_witness:
  \<open>closed \<lparr>sessionId = ''k1'', clientWs = accepted_socket,
           speechmaticsWs = Some \<lparr>readyState = OPEN, sent = [], pings = 0\<rparr>,
           closed = True, audioReceived = False, pingInterval = False, language = Str ''ar''\<rparr>
   \<and> clientWs_on_message example_parse
       \<lparr>sessionId = ''k1'', clientWs = accepted_socket,
        speechmaticsWs = Some \<lparr>readyState = OPEN, sent = [], pings = 0\<rparr>,
        closed = True, audioReceived = False, pingInterval = False, language = Str ''ar''\<rparr>
       (BufferData ''ab'')
     = \<lparr>sessionId = ''k1'', clientWs = accepted_socket,
        speechmaticsWs = Some \<lparr>readyState = OPEN, sent = [], pings = 0\<rparr>,
        closed = True, audioReceived = False, pingInterval = False, language = Str ''ar''\<rparr>
   \<and> speechmaticsWs_on_message example_parse
       \<lparr>sessionId = ''k1'', clientWs = accepted_socket,
        speechmaticsWs = Some \<lparr>readyState = OPEN, sent = [], pings = 0\<rparr>,
        closed = True, audioReceived = False, pingInterval = False, language = Str ''ar''\<rparr>
       (StringData ''{"message":"AddPartialTranscript","metadata":{"transcript":"hello"}}'')
     = \<lparr>sessionId = ''k1'', clientWs = accepted_socket,
        speechmaticsWs = Some \<lparr>readyState = OPEN, sent = [], pings = 0\<rparr>,
        closed = True, audioReceived = False, pingInterval = False, language = Str ''ar''\<rparr>\<close>
  using no_forwarding_once_closed [of
       "\<lparr>sessionId = ''k1'', clientWs = accepted_socket,
        speechmaticsWs = Some \<lparr>readyState = OPEN, sent = [], pings = 0\<rparr>,
        closed = True, audioReceived = False, pingInterval = False, language = Str ''ar''\<rparr>"
       example_parse "BufferData ''ab''"
       \<open>StringData ''{"message":"AddPartialTranscript","metadata":{"transcript":"hello"}}''\<close>
       "[]" "[]" initial_server 0]
  by simp

section \<open>Teardown\<close>

lemma distinct_step:
  "distinct (map fst (activeSessions server)) \<Longrightarrow>
   distinct (map fst (activeSessions (step P server e)))"
proof (cases e)
  case (Connection req ctor)
  assume "distinct (map fst (activeSessions server))"
  with Connection show ?thesis
    by (simp add: wss_on_connection_def Let_def distinct_Map_set)
next
  case (ClientClose n)
  assume "distinct (map fst (activeSessions server))"
  with ClientClose show ?thesis
    by (auto simp: teardown_def clientWs_on_close_def Let_def distinct_Map_delete
        split: connection.splits)
next
  case (ClientError n)
  assume "distinct (map fst (activeSessions server))"
  with ClientError show ?thesis
    by (auto simp: teardown_def clientWs_on_error_def Let_def distinct_Map_delete
        split: connection.splits)
qed simp_all

lemma distinct_run:
  "distinct (map fst (activeSessions (run P initial_server evs)))"
proof -
  have "distinct (map fst (activeSessions server)) \<Longrightarrow>
        distinct (map fst (activeSessions (foldl (step P) server evs)))" for server
    by (induction evs arbitrary: server) (simp_all add: distinct_step)
  then show ?thesis by (simp add: run_def initial_server_def)
qed

lemma teardown_result:
  assumes "h \<in> {clientWs_on_close, clientWs_on_error}"
  shows "fst (h registry s) = Map_delete (sessionId s) registry"
    and "sessionId (snd (h registry s)) = sessionId s"
    and "closed (snd (h registry s))"
    and "\<not> pingInterval (snd (h registry s))"
    and "\<forall>ws. speechmaticsWs (snd (h registry s)) = Some ws \<longrightarrow> readyState ws \<noteq> OPEN"
  using assms
  by (auto simp: clientWs_on_close_def clientWs_on_error_def Let_def ws_close_def ws_send_def
      split: option.splits if_splits)

lemma teardown_stable:
  assumes "h \<in> {clientWs_on_close, clientWs_on_error}"
    and "closed s" and "\<not> pingInterval s"
    and "\<forall>ws. speechmaticsWs s = Some ws \<longrightarrow> readyState ws \<noteq> OPEN \<and> ws_close ws = ws"
    and "Map_delete (sessionId s) registry = registry"
  shows "h registry s = (registry, s)"
  using assms
  by (auto simp: clientWs_on_close_def clientWs_on_error_def Let_def split: option.splits)

lemma ws_close_twice: "ws_close (ws_close ws) = ws_close ws"
  by (simp add: ws_close_def)

lemma teardown_then_teardown:
  assumes h1: "h1 \<in> {clientWs_on_close, clientWs_on_error}"
    and h2: "h2 \<in> {clientWs_on_close, clientWs_on_error}"
  shows "h2 (fst (h1 registry s)) (snd (h1 registry s)) = h1 registry s"
proof -
  have closing: "\<forall>ws. speechmaticsWs (snd (h1 registry s)) = Some ws \<longrightarrow>
                   readyState ws \<noteq> OPEN \<and> ws_close ws = ws"
    using h1
    by (auto simp: clientWs_on_close_def clientWs_on_error_def Let_def ws_close_def ws_send_def
        split: option.splits if_splits)
  have "h2 (fst (h1 registry s)) (snd (h1 registry s)) = (fst (h1 registry s), snd (h1 registry s))"
    by (rule teardown_stable [OF h2])
       (simp_all add: teardown_result [OF h1] closing Map_delete_idem)
  then show ?thesis by simp
qed

lemma teardown_server_twice:
  assumes h1: "h1 \<in> {clientWs_on_close, clientWs_on_error}"
    and h2: "h2 \<in> {clientWs_on_close, clientWs_on_error}"
  shows "teardown h2 n (teardown h1 n server) = teardown h1 n server"
proof (cases "session_at server n")
  case None
  then have "teardown h1 n server = server"
    by (auto simp: teardown_def session_at_def split: if_splits connection.splits)
  moreover from None have "teardown h2 n server = server"
    by (auto simp: teardown_def session_at_def split: if_splits connection.splits)
  ultimately show ?thesis by simp
next
  case (Some s)
  then have n: "n < length (connections server)" and c: "connections server ! n = Accepted s"
    by (auto simp: session_at_def split: if_splits connection.splits)
  obtain r1 s1 where r: "h1 (activeSessions server) s = (r1, s1)"
    by (cases "h1 (activeSessions server) s")
  from teardown_then_teardown [OF h1 h2, of "activeSessions server" s] r
  have again: "h2 r1 s1 = (r1, s1)" by simp
  from n c r have first: "teardown h1 n server =
      \<lparr>activeSessions = r1, connections = (connections server)[n := Accepted s1]\<rparr>"
    by (simp add: teardown_def)
  from n again have "teardown h2 n
      \<lparr>activeSessions = r1, connections = (connections server)[n := Accepted s1]\<rparr>
    = \<lparr>activeSessions = r1, connections = (connections server)[n := Accepted s1]\<rparr>"
    by (simp add: teardown_def)
  then show ?thesis by (simp only: first)
qed

text \<open>
  Two teardown handlers run back to back: after the client close handler or the
  client error handler has run on a session, the session is closed, its interval timer
  is cleared and its id is no key of the registry (whose size went down by exactly 1
  if the id was a key); running either handler again at once, in either order, changes
  neither the session nor the registry. Neither handler tests \<open>closed\<close>: the second
  run does its statements again, and each of them changes nothing on that state.
\<close>

lemma teardown_is_idempotent:
  "h1 \<in> {clientWs_on_close, clientWs_on_error} \<Longrightarrow>
   h2 \<in> {clientWs_on_close, clientWs_on_error} \<Longrightarrow>
   h1 registry s = (registry1, s1) \<Longrightarrow>
     closed s1 \<and> \<not> pingInterval s1 \<and> \<not> Map_has registry1 (sessionId s)
   \<and> (distinct (map fst registry) \<and> Map_has registry (sessionId s) \<longrightarrow>
        Suc (Map_size registry1) = Map_size registry)
   \<and> h2 registry1 s1 = (registry1, s1)
   \<and> teardown h2 n (teardown h1 n server) = teardown h1 n server
   \<and> step P (step P server (ClientError n)) (ClientClose n) = step P server (ClientError n)
   \<and> step P (step P server (ClientClose n)) (ClientError n) = step P server (ClientClose n)"
proof -
  assume h1: "h1 \<in> {clientWs_on_close, clientWs_on_error}"
    and h2: "h2 \<in> {clientWs_on_close, clientWs_on_error}"
    and r: "h1 registry s = (registry1, s1)"
  from teardown_result [OF h1, of registry s] r
  have reg: "registry1 = Map_delete (sessionId s) registry"
    and cl: "closed s1" and timer: "\<not> pingInterval s1"
    by simp_all
  from reg have gone: "\<not> Map_has registry1 (sessionId s)"
    by (simp add: Map_has_delete)
  from reg have once: "distinct (map fst registry) \<and> Map_has registry (sessionId s) \<longrightarrow>
        Suc (Map_size registry1) = Map_size registry"
    by (simp add: Map_size_delete_present)
  from teardown_then_teardown [OF h1 h2, of registry s] r
  have again: "h2 registry1 s1 = (registry1, s1)" by simp
  have srv: "teardown h2 n (teardown h1 n server) = teardown h1 n server"
    by (rule teardown_server_twice [OF h1 h2])
  have ec: "step P (step P server (ClientError n)) (ClientClose n) = step P server (ClientError n)"
    by (simp add: teardown_server_twice)
  have ce: "step P (step P server (ClientClose n)) (ClientError n) = step P server (ClientClose n)"
    by (simp add: teardown_server_twice)
  from cl timer gone once again srv ec ce show ?thesis by simp
qed

lemmas handler_defs =
  clientWs_on_close_def clientWs_on_error_def clientWs_on_message_def
  speechmaticsWs_on_open_def speechmaticsWs_on_message_def speechmaticsWs_on_close_def
  speechmaticsWs_on_error_def upstream_send_def pingInterval_tick_def ws_ping_def
  update_session_def teardown_def on_upstream_def session_at_def upstream_sent_def
  example_parse_def selectedFormat_def

lemma teardown_is_idempotent_example:
  "clientWs_on_error [(''k1'', 0), (''k2'', 1)]
      \<lparr>sessionId = ''k1'', clientWs = accepted_socket,
       speechmaticsWs = Some \<lparr>readyState = OPEN, sent = [], pings = 0\<rparr>,
       closed = False, audioReceived = False, pingInterval = True, language = Str ''ar''\<rparr>
    = ([(''k2'', 1)],
       \<lparr>sessionId = ''k1'', clientWs = accepted_socket,
        speechmaticsWs = Some \<lparr>readyState = CLOSING, sent = [], pings = 0\<rparr>,
        closed = True, audioReceived = False, pingInterval = False, language = Str ''ar''\<rparr>)
   \<and> clientWs_on_close [(''k2'', 1)]
       \<lparr>sessionId = ''k1'', clientWs = accepted_socket,
        speechmaticsWs = Some \<lparr>readyState = CLOSING, sent = [], pings = 0\<rparr>,
        closed = True, audioReceived = False, pingInterval = False, language = Str ''ar''\<rparr>
    = ([(''k2'', 1)],
       \<lparr>sessionId = ''k1'', clientWs = accepted_socket,
        speechmaticsWs = Some \<lparr>readyState = CLOSING, sent = [], pings = 0\<rparr>,
        closed = True, audioReceived = False, pingInterval = False, language = Str ''ar''\<rparr>)
   \<and> Suc (Map_size [(''k2'', 1 :: nat)]) = Map_size [(''k1'', 0 :: nat), (''k2'', 1)]"
proof -
  have first: "clientWs_on_error [(''k1'', 0), (''k2'', 1)]
      \<lparr>sessionId = ''k1'', clientWs = accepted_socket,
       speechmaticsWs = Some \<lparr>readyState = OPEN, sent = [], pings = 0\<rparr>,
       closed = False, audioReceived = False, pingInterval = True, language = Str ''ar''\<rparr>
    = ([(''k2'', 1)],
       \<lparr>sessionId = ''k1'', clientWs = accepted_socket,
        speechmaticsWs = Some \<lparr>readyState = CLOSING, sent = [], pings = 0\<rparr>,
        closed = True, audioReceived = False, pingInterval = False, language = Str ''ar''\<rparr>)"
    by (simp add: clientWs_on_error_def Map_delete_def ws_close_def)
  have h1: "clientWs_on_error \<in> {clientWs_on_close, clientWs_on_error}" by simp
  have h2: "clientWs_on_close \<in> {clientWs_on_close, clientWs_on_error}" by simp
  from teardown_is_idempotent [OF h1 h2 first, of 0 initial_server example_parse] first
  show ?thesis by (simp add: Map_has_def)
qed

text \<open>
  C3. The second run of the teardown is not stopped by \<open>closed\<close>. A session errors
  and is torn down; a new connection with the same session id is admitted; then the
  close event of the first session arrives. Its handler runs in full although the
  session is closed already, and deletes the registry entry of the new session, which
  is live and not closed.
\<close>

theorem second_teardown_deletes_live_entry:
  "activeSessions (run example_parse initial_server
      [Connection \<lparr>sec_websocket_key = ''k1'', url = ''/''\<rparr> Constructed,
       ClientError 0,
       Connection \<lparr>sec_websocket_key = ''k1'', url = ''/''\<rparr> Constructed]) = [(''k1'', 1)]
   \<and> map_option closed (session_at (run example_parse initial_server
      [Connection \<lparr>sec_websocket_key = ''k1'', url = ''/''\<rparr> Constructed,
       ClientError 0,
       Connection \<lparr>sec_websocket_key = ''k1'', url = ''/''\<rparr> Constructed]) 0) = Some True
   \<and> activeSessions (run example_parse initial_server
      [Connection \<lparr>sec_websocket_key = ''k1'', url = ''/''\<rparr> Constructed,
       ClientError 0,
       Connection \<lparr>sec_websocket_key = ''k1'', url = ''/''\<rparr> Constructed,
       ClientClose 0]) = []
   \<and> map_option closed (session_at (run example_parse initial_server
      [Connection \<lparr>sec_websocket_key = ''k1'', url = ''/''\<rparr> Constructed,
       ClientError 0,
       Connection \<lparr>sec_websocket_key = ''k1'', url = ''/''\<rparr> Constructed,
       ClientClose 0]) 1) = Some False"
  by (simp add: eval_defs handler_defs)

text \<open>
  C4. When the client transport errors while the upstream socket is open, the error
  handler closes the upstream socket without sending \<^verbatim>\<open>EndOfStream\<close>, and the close
  handler that runs after it finds the socket no longer open and sends none either;
  the close handler alone, on the same state, does send it.
\<close>

theorem client_error_sends_no_EndOfStream:
  "map_option (map_option readyState \<circ> speechmaticsWs)
     (session_at (run example_parse initial_server
        [Connection \<lparr>sec_websocket_key = ''k1'', url = ''/''\<rparr> Constructed,
         UpstreamTransport 0 OPEN, UpstreamOpen 0]) 0) = Some (Some OPEN)
   \<and> upstream_sent (run example_parse initial_server
        [Connection \<lparr>sec_websocket_key = ''k1'', url = ''/''\<rparr> Constructed,
         UpstreamTransport 0 OPEN, UpstreamOpen 0, ClientError 0]) 0
     = upstream_sent (run example_parse initial_server
        [Connection \<lparr>sec_websocket_key = ''k1'', url = ''/''\<rparr> Constructed,
         UpstreamTransport 0 OPEN, UpstreamOpen 0]) 0
   \<and> upstream_sent (run example_parse initial_server
        [Connection \<lparr>sec_websocket_key = ''k1'', url = ''/''\<rparr> Constructed,
         UpstreamTransport 0 OPEN, UpstreamOpen 0, ClientError 0, ClientClose 0]) 0
     = upstream_sent (run example_parse initial_server
        [Connection \<lparr>sec_websocket_key = ''k1'', url = ''/''\<rparr> Constructed,
         UpstreamTransport 0 OPEN, UpstreamOpen 0]) 0
   \<and> upstream_sent (run example_parse initial_server
        [Connection \<lparr>sec_websocket_key = ''k1'', url = ''/''\<rparr> Constructed,
         UpstreamTransport 0 OPEN, UpstreamOpen 0, ClientClose 0]) 0
     = upstream_sent (run example_parse initial_server
        [Connection \<lparr>sec_websocket_key = ''k1'', url = ''/''\<rparr> Constructed,
         UpstreamTransport 0 OPEN, UpstreamOpen 0]) 0
       @ [Json (JObj [(''message'', JStr ''EndOfStream'')])]"
  by (simp add: eval_defs handler_defs)

section \<open>Upstream failures\<close>

text \<open>
  C5. On a session that is not closed, each upstream close event sends the client
  exactly one \<^verbatim>\<open>speechmatics_disconnected\<close> event with the close code and, where there is
  one, the reason, and each upstream error event sends exactly one \<^verbatim>\<open>error\<close> event
  with, where there is one, the error message as details. Neither handler knows of the
  other: an upstream failure that raises the error event and then the close event is
  reported twice, once by each. Nothing else of the session changes: the client socket
  is not closed and the session is not marked closed.
\<close>

theorem each_upstream_event_is_reported:
  "\<not> closed s \<Longrightarrow>
     speechmaticsWs_on_close s code reason =
       s\<lparr>clientWs := (clientWs s)\<lparr>sent := sent (clientWs s) @
          [Json (JObj ([(''type'', JStr ''speechmatics_disconnected''),
                        (''message'', JStr ''Speechmatics connection closed''),
                        (''code'', JNum (Finite (of_int code)))]
                       @ (case reason of None \<Rightarrow> [] | Some r \<Rightarrow> [(''reason'', JStr r)])))]\<rparr>\<rparr>
   \<and> speechmaticsWs_on_error s err_message =
       s\<lparr>clientWs := (clientWs s)\<lparr>sent := sent (clientWs s) @
          [Json (JObj ([(''type'', JStr ''error''),
                        (''message'', JStr ''Speechmatics connection error'')]
                       @ (case err_message of None \<Rightarrow> [] | Some d \<Rightarrow> [(''details'', JStr d)])))]\<rparr>\<rparr>
   \<and> speechmaticsWs_on_close (speechmaticsWs_on_error s err_message) code reason =
       s\<lparr>clientWs := (clientWs s)\<lparr>sent := sent (clientWs s) @
          [Json (JObj ([(''type'', JStr ''error''),
                        (''message'', JStr ''Speechmatics connection error'')]
                       @ (case err_message of None \<Rightarrow> [] | Some d \<Rightarrow> [(''details'', JStr d)]))),
           Json (JObj ([(''type'', JStr ''speechmatics_disconnected''),
                        (''message'', JStr ''Speechmatics connection closed''),
                        (''code'', JNum (Finite (of_int code)))]
                       @ (case reason of None \<Rightarrow> [] | Some r \<Rightarrow> [(''reason'', JStr r)])))]\<rparr>\<rparr>
   \<and> readyState (clientWs (speechmaticsWs_on_close s code reason)) = readyState (clientWs s)
   \<and> readyState (clientWs (speechmaticsWs_on_error s err_message)) = readyState (clientWs s)
   \<and> \<not> closed (speechmaticsWs_on_close s code reason)
   \<and> \<not> closed (speechmaticsWs_on_error s err_message)"
  by (simp add: speechmaticsWs_on_close_def speechmaticsWs_on_error_def client_send_def ws_send_def
      split: option.split)

theorem each_upstream_event_is_reported_witness:
  "\<not> closed \<lparr>sessionId = ''k1'', clientWs = accepted_socket,
           speechmaticsWs = Some \<lparr>readyState = CLOSED, sent = [], pings = 0\<rparr>,
           closed = False, audioReceived = False, pingInterval = True, language = Str ''ar''\<rparr>
   \<and> speechmaticsWs_on_close
       \<lparr>sessionId = ''k1'', clientWs = accepted_socket,
        speechmaticsWs = Some \<lparr>readyState = CLOSED, sent = [], pings = 0\<rparr>,
        closed = False, audioReceived = False, pingInterval = True, language = Str ''ar''\<rparr>
       1006 (Some ''gone'')
     = \<lparr>sessionId = ''k1'',
        clientWs = \<lparr>readyState = OPEN,
                    sent = [Json (JObj [(''type'', JStr ''speechmatics_disconnected''),
                                        (''message'', JStr ''Speechmatics connection closed''),
                                        (''code'', JNum (Finite 1006)), (''reason'', JStr ''gone'')])],
                    pings = 0\<rparr>,
        speechmaticsWs = Some \<lparr>readyState = CLOSED, sent = [], pings = 0\<rparr>,
        closed = False, audioReceived = False, pingInterval = True, language = Str ''ar''\<rparr>"
  using each_upstream_event_is_reported [of
       "\<lparr>sessionId = ''k1'', clientWs = accepted_socket,
        speechmaticsWs = Some \<lparr>readyState = CLOSED, sent = [], pings = 0\<rparr>,
        closed = False, audioReceived = False, pingInterval = True, language = Str ''ar''\<rparr>"
       1006 "Some ''gone''" None]
  by (simp add: accepted_socket_def)

theorem upstream_failure_counterexample:
  "client_sent (run example_parse initial_server
      [Connection \<lparr>sec_websocket_key = ''k1'', url = ''/''\<rparr> Constructed,
       UpstreamTransport 0 OPEN, UpstreamOpen 0,
       UpstreamError 0 (Some ''reset''), UpstreamClose 0 1006 None]) 0
   = client_sent (run example_parse initial_server
      [Connection \<lparr>sec_websocket_key = ''k1'', url = ''/''\<rparr> Constructed,
       UpstreamTransport 0 OPEN, UpstreamOpen 0]) 0
     @ [Json (JObj [(''type'', JStr ''error''),
                    (''message'', JStr ''Speechmatics connection error''),
                    (''details'', JStr ''reset'')]),
        Json (JObj [(''type'', JStr ''speechmatics_disconnected''),
                    (''message'', JStr ''Speechmatics connection closed''),
                    (''code'', JNum (Finite 1006))])]"
  by (simp add: eval_defs handler_defs client_sent_def)

lemma no_upstream_update:
  assumes "map_option speechmaticsWs (session_at server n) = Some None"
    and "\<And>s. speechmaticsWs s = None \<Longrightarrow> speechmaticsWs (f s) = None"
  shows "map_option speechmaticsWs (session_at (update_session m f server) n) = Some None"
  using assms
  by (auto simp: session_at_def update_session_def nth_list_update
      split: if_splits connection.splits)

lemma no_upstream_teardown:
  assumes "map_option speechmaticsWs (session_at server n) = Some None"
    and "h \<in> {clientWs_on_close, clientWs_on_error}"
  shows "map_option speechmaticsWs (session_at (teardown h m server) n) = Some None"
  using assms
  by (auto simp: session_at_def teardown_def nth_list_update clientWs_on_close_def
      clientWs_on_error_def Let_def
      split: if_splits connection.splits)

lemma no_upstream_step:
  assumes "map_option speechmaticsWs (session_at server n) = Some None"
  shows "map_option speechmaticsWs (session_at (step P server e) n) = Some None"
proof (cases e)
  case (Connection req ctor)
  with assms show ?thesis
    by (auto simp: session_at_def wss_on_connection_def Let_def nth_append
        split: if_splits connection.splits)
next
  case (ClientMessage m d)
  with assms show ?thesis
    by (simp add: no_upstream_update clientWs_on_message_def)
next
  case (ClientClose m)
  with assms show ?thesis by (simp add: no_upstream_teardown)
next
  case (ClientError m)
  with assms show ?thesis by (simp add: no_upstream_teardown)
next
  case (PingTick m)
  with assms show ?thesis
    by (simp add: no_upstream_update pingInterval_tick_def)
next
  case (UpstreamOpen m)
  with assms show ?thesis by (simp add: no_upstream_update on_upstream_def)
next
  case (UpstreamMessage m d)
  with assms show ?thesis by (simp add: no_upstream_update on_upstream_def)
next
  case (UpstreamClose m c r)
  with assms show ?thesis by (simp add: no_upstream_update on_upstream_def)
next
  case (UpstreamError m x)
  with assms show ?thesis by (simp add: no_upstream_update on_upstream_def)
next
  case (ClientTransport m rs)
  with assms show ?thesis by (simp add: no_upstream_update)
next
  case (UpstreamTransport m rs)
  with assms show ?thesis by (simp add: no_upstream_update)
qed

lemma no_upstream_run:
  "map_option speechmaticsWs (session_at server n) = Some None \<Longrightarrow>
   map_option speechmaticsWs (session_at (run P server evs) n) = Some None"
  unfolding run_def
proof (induction evs arbitrary: server)
  case Nil
  then show ?case by (simp only: foldl_Nil)
next
  case (Cons e evs)
  from Cons.prems have "map_option speechmaticsWs (session_at (step P server e) n) = Some None"
    by (rule no_upstream_step)
  then have "map_option speechmaticsWs (session_at (foldl (step P) (step P server e) evs) n)
      = Some None"
    by (rule Cons.IH)
  then show ?case by (simp only: foldl_Cons)
qed

text \<open>
  C6. When the upstream constructor throws, the client is sent exactly one \<^verbatim>\<open>error\<close>
  event ("Failed to setup Speechmatics connection", with the exception's message as
  details where there is one) and nothing else of the session changes: the relay
  neither closes the client socket nor marks the session closed, and the connection
  handler has stored the session in the registry like any admitted one. The session
  has no upstream socket then and never gets one, whatever happens afterwards, so it
  never reaches the state with an open upstream.
\<close>

theorem setup_failure_is_reported_not_closed:
  "setupSpeechmatics (Throws err_message) s =
       s\<lparr>clientWs := (clientWs s)\<lparr>sent := sent (clientWs s) @
          [Json (JObj ([(''type'', JStr ''error''),
                        (''message'', JStr ''Failed to setup Speechmatics connection'')]
                       @ (case err_message of None \<Rightarrow> [] | Some d \<Rightarrow> [(''details'', JStr d)])))]\<rparr>\<rparr>
   \<and> (Map_size (activeSessions server) < 2 \<longrightarrow>
        map_option speechmaticsWs
          (session_at (run P (wss_on_connection server req (Throws err_message)) evs)
             (length (connections server))) = Some None
      \<and> map_option closed
          (session_at (wss_on_connection server req (Throws err_message))
             (length (connections server))) = Some False
      \<and> map_option (readyState \<circ> clientWs)
          (session_at (wss_on_connection server req (Throws err_message))
             (length (connections server))) = Some OPEN
      \<and> Map_has (activeSessions (wss_on_connection server req (Throws err_message)))
          (sec_websocket_key req))"
proof (intro conjI impI)
  show "setupSpeechmatics (Throws err_message) s =
       s\<lparr>clientWs := (clientWs s)\<lparr>sent := sent (clientWs s) @
          [Json (JObj ([(''type'', JStr ''error''),
                        (''message'', JStr ''Failed to setup Speechmatics connection'')]
                       @ (case err_message of None \<Rightarrow> [] | Some d \<Rightarrow> [(''details'', JStr d)])))]\<rparr>\<rparr>"
    by (simp add: setupSpeechmatics_def client_send_def ws_send_def split: option.split)
next
  assume small: "Map_size (activeSessions server) < 2"
  then have start: "map_option speechmaticsWs
      (session_at (wss_on_connection server req (Throws err_message))
         (length (connections server))) = Some None"
    by (simp add: session_at_def wss_on_connection_def MAX_CONCURRENT_SESSIONS_def Let_def
        setupSpeechmatics_def client_send_def)
  then show "map_option speechmaticsWs
          (session_at (run P (wss_on_connection server req (Throws err_message)) evs)
             (length (connections server))) = Some None"
    by (rule no_upstream_run)
  from small show "map_option closed
          (session_at (wss_on_connection server req (Throws err_message))
             (length (connections server))) = Some False"
    by (simp add: session_at_def wss_on_connection_def MAX_CONCURRENT_SESSIONS_def Let_def)
  from small show "map_option (readyState \<circ> clientWs)
          (session_at (wss_on_connection server req (Throws err_message))
             (length (connections server))) = Some OPEN"
    by (simp add: session_at_def wss_on_connection_def MAX_CONCURRENT_SESSIONS_def Let_def
        setupSpeechmatics_def client_send_def ws_send_def accepted_socket_def)
  from small show "Map_has (activeSessions (wss_on_connection server req (Throws err_message)))
          (sec_websocket_key req)"
    by (simp add: wss_on_connection_def MAX_CONCURRENT_SESSIONS_def Let_def Map_has_def
        keys_Map_set)
qed

theorem setup_failure_is_reported_not_closed_witness:
  "Map_size (activeSessions initial_server) < 2
   \<and> map_option speechmaticsWs
        (session_at (run example_parse
           (wss_on_connection initial_server \<lparr>sec_websocket_key = ''k1'', url = ''/''\<rparr>
              (Throws (Some ''boom'')))
           [UpstreamTransport 0 OPEN, UpstreamOpen 0, ClientMessage 0 (BufferData ''ab'')]) 0)
      = Some None
   \<and> Map_has (activeSessions (wss_on_connection initial_server
        \<lparr>sec_websocket_key = ''k1'', url = ''/''\<rparr> (Throws (Some ''boom'')))) ''k1''"
  using setup_failure_is_reported_not_closed [of "Some ''boom''"
      "\<lparr>sessionId = ''k1'', clientWs = accepted_socket, speechmaticsWs = None,
        closed = False, audioReceived = False, pingInterval = True, language = Str ''ar''\<rparr>"
      initial_server
      example_parse "\<lparr>sec_websocket_key = ''k1'', url = ''/''\<rparr>"
      "[UpstreamTransport 0 OPEN, UpstreamOpen 0, ClientMessage 0 (BufferData ''ab'')]"]
  by (simp add: initial_server_def Map_size_def)

theorem setup_failure_counterexample:
  "run example_parse initial_server
     [Connection \<lparr>sec_websocket_key = ''k1'', url = ''/''\<rparr> (Throws (Some ''boom''))]
   = \<lparr>activeSessions = [(''k1'', 0)],
      connections =
        [Accepted \<lparr>sessionId = ''k1'',
           clientWs = \<lparr>readyState = OPEN,
                       sent = [Json (JObj [(''type'', JStr ''error''),
                                           (''message'', JStr ''Failed to setup Speechmatics connection''),
                                           (''details'', JStr ''boom'')])],
                       pings = 0\<rparr>,
           speechmaticsWs = None, closed = False, audioReceived = False,
           pingInterval = True, language = Str ''ar''\<rparr>]\<rparr>"
  by (simp add: eval_defs parse_language_def URLSearchParams_def URLSearchParams_get_def
      lookup_language_def SUPPORTED_LANGUAGES_def)

section \<open>Relaying transcripts and audio\<close>

lemma transcript_event:
  assumes "\<not> closed s"
    and "JSON_parse (toString data) = Some (JObj fs)"
    and "map_of fs ''message'' = Some (JStr kind)"
    and "kind = ''AddPartialTranscript'' \<or> kind = ''AddTranscript''"
  shows "speechmaticsWs_on_message JSON_parse s data =
          s\<lparr>clientWs := (clientWs s)\<lparr>sent := sent (clientWs s) @
             [Json (JObj [(''type'', JStr (if kind = ''AddTranscript'' then ''final'' else ''partial'')),
                          (''transcript'',
                           written (or_default
                             (get_prop_opt (map_of fs ''metadata'') ''transcript'') (JStr [])))])]\<rparr>\<rparr>"
  using assms
  by (auto simp: speechmaticsWs_on_message_def client_send_def ws_send_def Let_def)

text \<open>
  C8. On a session that is not closed, an upstream message that parses to an object
  whose \<^verbatim>\<open>message\<close> is \<^verbatim>\<open>AddPartialTranscript\<close> or \<^verbatim>\<open>AddTranscript\<close> makes the relay send
  the client exactly one event, of type \<^verbatim>\<open>partial\<close> or \<^verbatim>\<open>final\<close>, and nothing else of
  the session changes. Its \<^verbatim>\<open>transcript\<close> is \<^verbatim>\<open>metadata.transcript\<close> as it is when that is
  a string; the empty string when there is none, and also when it is there but falsy
  (\<^verbatim>\<open>null\<close>, \<^verbatim>\<open>false\<close>, \<^verbatim>\<open>0\<close>); and for any other value what \<^verbatim>\<open>JSON.stringify\<close> writes
  for it, which is the value itself but for an infinity, written \<^verbatim>\<open>null\<close>.
\<close>

theorem transcripts_are_relayed:
  "\<not> closed s \<Longrightarrow>
   JSON_parse (toString data) = Some (JObj fs) \<Longrightarrow>
   map_of fs ''message'' = Some (JStr kind) \<Longrightarrow>
   kind = ''AddPartialTranscript'' \<or> kind = ''AddTranscript'' \<Longrightarrow>
     (get_prop_opt (map_of fs ''metadata'') ''transcript'' = Some (JStr t) \<longrightarrow>
        speechmaticsWs_on_message JSON_parse s data =
          s\<lparr>clientWs := (clientWs s)\<lparr>sent := sent (clientWs s) @
             [Json (JObj [(''type'', JStr (if kind = ''AddTranscript'' then ''final'' else ''partial'')),
                          (''transcript'', JStr t)])]\<rparr>\<rparr>)
   \<and> (get_prop_opt (map_of fs ''metadata'') ''transcript'' = None \<longrightarrow>
        speechmaticsWs_on_message JSON_parse s data =
          s\<lparr>clientWs := (clientWs s)\<lparr>sent := sent (clientWs s) @
             [Json (JObj [(''type'', JStr (if kind = ''AddTranscript'' then ''final'' else ''partial'')),
                          (''transcript'', JStr [])])]\<rparr>\<rparr>)
   \<and> (get_prop_opt (map_of fs ''metadata'') ''transcript'' = Some v \<and> \<not> truthy v \<longrightarrow>
        speechmaticsWs_on_message JSON_parse s data =
          s\<lparr>clientWs := (clientWs s)\<lparr>sent := sent (clientWs s) @
             [Json (JObj [(''type'', JStr (if kind = ''AddTranscript'' then ''final'' else ''partial'')),
                          (''transcript'', JStr [])])]\<rparr>\<rparr>)
   \<and> (get_prop_opt (map_of fs ''metadata'') ''transcript'' = Some v \<and> truthy v \<longrightarrow>
        speechmaticsWs_on_message JSON_parse s data =
          s\<lparr>clientWs := (clientWs s)\<lparr>sent := sent (clientWs s) @
             [Json (JObj [(''type'', JStr (if kind = ''AddTranscript'' then ''final'' else ''partial'')),
                          (''transcript'', written v)])]\<rparr>\<rparr>)
   \<and> \<not> truthy JNull \<and> \<not> truthy (JBool False) \<and> \<not> truthy (JNum (Finite 0))
   \<and> written (JNum PosInfinity) = JNull \<and> written (JNum NegInfinity) = JNull
   \<and> written (JNum (Finite r)) = JNum (Finite r) \<and> written (JBool b) = JBool b"
proof -
  assume open_session: "\<not> closed s"
    and parsed: "JSON_parse (toString data) = Some (JObj fs)"
    and msg: "map_of fs ''message'' = Some (JStr kind)"
    and kind: "kind = ''AddPartialTranscript'' \<or> kind = ''AddTranscript''"
  have event: "speechmaticsWs_on_message JSON_parse s data =
          s\<lparr>clientWs := (clientWs s)\<lparr>sent := sent (clientWs s) @
             [Json (JObj [(''type'', JStr (if kind = ''AddTranscript'' then ''final'' else ''partial'')),
                          (''transcript'',
                           written (or_default
                             (get_prop_opt (map_of fs ''metadata'') ''transcript'') (JStr [])))])]\<rparr>\<rparr>"
    using open_session parsed msg kind by (rule transcript_event)
  have string: "get_prop_opt (map_of fs ''metadata'') ''transcript'' = Some (JStr t) \<longrightarrow>
        speechmaticsWs_on_message JSON_parse s data =
          s\<lparr>clientWs := (clientWs s)\<lparr>sent := sent (clientWs s) @
             [Json (JObj [(''type'', JStr (if kind = ''AddTranscript'' then ''final'' else ''partial'')),
                          (''transcript'', JStr t)])]\<rparr>\<rparr>"
    by (simp add: event)
  have absent: "get_prop_opt (map_of fs ''metadata'') ''transcript'' = None \<longrightarrow>
        speechmaticsWs_on_message JSON_parse s data =
          s\<lparr>clientWs := (clientWs s)\<lparr>sent := sent (clientWs s) @
             [Json (JObj [(''type'', JStr (if kind = ''AddTranscript'' then ''final'' else ''partial'')),
                          (''transcript'', JStr [])])]\<rparr>\<rparr>"
    by (simp add: event)
  have falsy: "get_prop_opt (map_of fs ''metadata'') ''transcript'' = Some v \<and> \<not> truthy v \<longrightarrow>
        speechmaticsWs_on_message JSON_parse s data =
          s\<lparr>clientWs := (clientWs s)\<lparr>sent := sent (clientWs s) @
             [Json (JObj [(''type'', JStr (if kind = ''AddTranscript'' then ''final'' else ''partial'')),
                          (''transcript'', JStr [])])]\<rparr>\<rparr>"
    by (simp add: event)
  have other: "get_prop_opt (map_of fs ''metadata'') ''transcript'' = Some v \<and> truthy v \<longrightarrow>
        speechmaticsWs_on_message JSON_parse s data =
          s\<lparr>clientWs := (clientWs s)\<lparr>sent := sent (clientWs s) @
             [Json (JObj [(''type'', JStr (if kind = ''AddTranscript'' then ''final'' else ''partial'')),
                          (''transcript'', written v)])]\<rparr>\<rparr>"
    by (simp add: event)
  from string absent falsy other show ?thesis by simp
qed

theorem transcripts_are_relayed_witness:
  \<open>speechmaticsWs_on_message example_parse
       \<lparr>sessionId = ''k1'', clientWs = accepted_socket,
        speechmaticsWs = Some \<lparr>readyState = OPEN, sent = [], pings = 0\<rparr>,
        closed = False, audioReceived = False, pingInterval = True, language = Str ''ar''\<rparr>
       (StringData ''{"message":"AddPartialTranscript","metadata":{"transcript":"hello"}}'')
     = \<lparr>sessionId = ''k1'',
        clientWs = \<lparr>readyState = OPEN,
                    sent = [Json (JObj [(''type'', JStr ''partial''), (''transcript'', JStr ''hello'')])],
                    pings = 0\<rparr>,
        speechmaticsWs = Some \<lparr>readyState = OPEN, sent = [], pings = 0\<rparr>,
        closed = False, audioReceived = False, pingInterval = True, language = Str ''ar''\<rparr>\<close>
  using transcripts_are_relayed [where
      s = "\<lparr>sessionId = ''k1'', clientWs = accepted_socket,
        speechmaticsWs = Some \<lparr>readyState = OPEN, sent = [], pings = 0\<rparr>,
        closed = False, audioReceived = False, pingInterval = True, language = Str ''ar''\<rparr>"
      and JSON_parse = example_parse
      and data = \<open>StringData ''{"message":"AddPartialTranscript","metadata":{"transcript":"hello"}}''\<close>
      and fs = "[(''message'', JStr ''AddPartialTranscript''),
                 (''metadata'', JObj [(''transcript'', JStr ''hello'')])]"
      and kind = "''AddPartialTranscript''" and t = "''hello''" and v = "JStr ''hello''"]
  by (simp add: example_parse_def accepted_socket_def)

theorem falsy_transcript_counterexample:
  \<open>speechmaticsWs_on_message example_parse
       \<lparr>sessionId = ''k1'', clientWs = accepted_socket,
        speechmaticsWs = Some \<lparr>readyState = OPEN, sent = [], pings = 0\<rparr>,
        closed = False, audioReceived = False, pingInterval = True, language = Str ''ar''\<rparr>
       (StringData ''{"message":"AddPartialTranscript","metadata":{"transcript":0}}'')
     = \<lparr>sessionId = ''k1'',
        clientWs = \<lparr>readyState = OPEN,
                    sent = [Json (JObj [(''type'', JStr ''partial''), (''transcript'', JStr [])])],
                    pings = 0\<rparr>,
        speechmaticsWs = Some \<lparr>readyState = OPEN, sent = [], pings = 0\<rparr>,
        closed = False, audioReceived = False, pingInterval = True, language = Str ''ar''\<rparr>
   \<and> speechmaticsWs_on_message example_parse
       \<lparr>sessionId = ''k1'', clientWs = accepted_socket,
        speechmaticsWs = Some \<lparr>readyState = OPEN, sent = [], pings = 0\<rparr>,
        closed = False, audioReceived = False, pingInterval = True, language = Str ''ar''\<rparr>
       (StringData ''{"message":"AddPartialTranscript","metadata":{"transcript":1e400}}'')
     = \<lparr>sessionId = ''k1'',
        clientWs = \<lparr>readyState = OPEN,
                    sent = [Json (JObj [(''type'', JStr ''partial''), (''transcript'', JNull)])],
                    pings = 0\<rparr>,
        speechmaticsWs = Some \<lparr>readyState = OPEN, sent = [], pings = 0\<rparr>,
        closed = False, audioReceived = False, pingInterval = True, language = Str ''ar''\<rparr>\<close>
  by (simp add: speechmaticsWs_on_message_def example_parse_def client_send_def ws_send_def
      accepted_socket_def)

lemma session_at_update_session:
  "session_at server n = Some s \<Longrightarrow>
   session_at (update_session m f server) n = Some (if m = n then f s else s)"
  by (auto simp: session_at_def update_session_def nth_list_update
      split: if_splits connection.splits)

lemma session_at_teardown:
  "session_at server n = Some s \<Longrightarrow>
   session_at (teardown h m server) n =
     Some (if m = n then snd (h (activeSessions server) s) else s)"
  by (auto simp: session_at_def teardown_def nth_list_update
      split: if_splits connection.splits prod.splits)

lemma session_at_wss_on_connection:
  "session_at server n = Some s \<Longrightarrow> session_at (wss_on_connection server req ctor) n = Some s"
  by (auto simp: session_at_def wss_on_connection_def Let_def nth_append
      split: if_splits connection.splits)

lemma audioReceived_teardown:
  "audioReceived (snd (clientWs_on_close registry s)) = audioReceived s"
  "audioReceived (snd (clientWs_on_error registry s)) = audioReceived s"
  by (simp_all add: clientWs_on_close_def clientWs_on_error_def Let_def split: option.splits)

lemma audioReceived_other_handlers:
  "audioReceived (pingInterval_tick s) = audioReceived s"
  "audioReceived (on_upstream speechmaticsWs_on_open s) = audioReceived s"
  "audioReceived (on_upstream (\<lambda>s. speechmaticsWs_on_close s code reason) s) = audioReceived s"
  "audioReceived (on_upstream (\<lambda>s. speechmaticsWs_on_error s err_message) s) = audioReceived s"
  "audioReceived (clientWs_on_message P s frame) = audioReceived s"
  by (simp_all add: pingInterval_tick_def on_upstream_def speechmaticsWs_on_open_def
      speechmaticsWs_on_close_def speechmaticsWs_on_error_def clientWs_on_message_def
      client_send_def upstream_send_def Let_def split: option.splits)

lemma audioReceived_step:
  assumes at: "session_at server n = Some s"
    and other: "\<forall>m d. e \<noteq> UpstreamMessage m d"
  shows "map_option audioReceived (session_at (step P server e) n) = Some (audioReceived s)"
proof (cases e)
  case (Connection req ctor)
  with at show ?thesis by (simp add: session_at_wss_on_connection)
next
  case (ClientMessage m d)
  with at show ?thesis by (simp add: session_at_update_session audioReceived_other_handlers)
next
  case (ClientClose m)
  with at show ?thesis by (simp add: session_at_teardown audioReceived_teardown)
next
  case (ClientError m)
  with at show ?thesis by (simp add: session_at_teardown audioReceived_teardown)
next
  case (PingTick m)
  with at show ?thesis by (simp add: session_at_update_session audioReceived_other_handlers)
next
  case (UpstreamOpen m)
  with at show ?thesis by (simp add: session_at_update_session audioReceived_other_handlers)
next
  case (UpstreamMessage m d)
  with other show ?thesis by simp
next
  case (UpstreamClose m c r)
  with at show ?thesis by (simp add: session_at_update_session audioReceived_other_handlers)
next
  case (UpstreamError m x)
  with at show ?thesis by (simp add: session_at_update_session audioReceived_other_handlers)
next
  case (ClientTransport m rs)
  with at show ?thesis by (simp add: session_at_update_session)
next
  case (UpstreamTransport m rs)
  with at show ?thesis by (simp add: session_at_update_session)
qed

lemma audioReceived_upstream_message:
  "audioReceived (speechmaticsWs_on_message P s message) =
       (audioReceived s \<or>
        (\<not> closed s \<and> (\<exists>fs. P (toString message) = Some (JObj fs)
                              \<and> map_of fs ''message'' = Some (JStr ''AudioAdded''))))"
proof (cases "P (toString message)")
  case None
  then show ?thesis by (simp add: speechmaticsWs_on_message_def)
next
  case (Some msg)
  then show ?thesis
    by (cases msg) (auto simp: speechmaticsWs_on_message_def client_send_def Let_def)
qed

text \<open>
  C9. A client frame that arrives while the session has no open upstream socket is
  dropped: the session is unchanged, and there is no exception to escape, the handler
  being total. The client message handler never changes \<open>audioReceived\<close>, not even when
  it forwards a frame. A session starts with the flag false; the upstream message
  handler sets it on an \<^verbatim>\<open>AudioAdded\<close> message, on a session that is not closed and
  has an upstream socket; and no other event of the server changes the flag of any
  session.
\<close>

theorem audioReceived_follows_AudioAdded:
  "(\<not> closed s \<and> (\<forall>ws. speechmaticsWs s = Some ws \<longrightarrow> readyState ws \<noteq> OPEN)
      \<longrightarrow> clientWs_on_message P s frame = s)
   \<and> audioReceived (clientWs_on_message P s frame) = audioReceived s
   \<and> audioReceived (speechmaticsWs_on_message P s message) =
       (audioReceived s \<or>
        (\<not> closed s \<and> (\<exists>fs. P (toString message) = Some (JObj fs)
                              \<and> map_of fs ''message'' = Some (JStr ''AudioAdded''))))
   \<and> (Map_size (activeSessions server) < 2 \<longrightarrow>
        map_option audioReceived
          (session_at (wss_on_connection server req ctor) (length (connections server)))
        = Some False)
   \<and> (session_at server n = Some s \<and> (\<forall>m d. e \<noteq> UpstreamMessage m d) \<longrightarrow>
        map_option audioReceived (session_at (step P server e) n) = Some (audioReceived s))
   \<and> (session_at server n = Some s \<longrightarrow>
        map_option audioReceived (session_at (step P server (UpstreamMessage m message)) n) =
          Some (if m = n \<and> speechmaticsWs s \<noteq> None
                then audioReceived (speechmaticsWs_on_message P s message)
                else audioReceived s))"
proof (intro conjI impI)
  assume "\<not> closed s \<and> (\<forall>ws. speechmaticsWs s = Some ws \<longrightarrow> readyState ws \<noteq> OPEN)"
  then show "clientWs_on_message P s frame = s"
    by (auto simp: clientWs_on_message_def split: option.splits)
next
  show "audioReceived (clientWs_on_message P s frame) = audioReceived s"
    by (rule audioReceived_other_handlers)
next
  show "audioReceived (speechmaticsWs_on_message P s message) =
       (audioReceived s \<or>
        (\<not> closed s \<and> (\<exists>fs. P (toString message) = Some (JObj fs)
                              \<and> map_of fs ''message'' = Some (JStr ''AudioAdded''))))"
    by (rule audioReceived_upstream_message)
next
  assume "Map_size (activeSessions server) < 2"
  then show "map_option audioReceived
          (session_at (wss_on_connection server req ctor) (length (connections server)))
        = Some False"
    by (simp add: session_at_def wss_on_connection_def MAX_CONCURRENT_SESSIONS_def Let_def
        setupSpeechmatics_def client_send_def split: ctor_result.split)
next
  assume "session_at server n = Some s \<and> (\<forall>m d. e \<noteq> UpstreamMessage m d)"
  then show "map_option audioReceived (session_at (step P server e) n) = Some (audioReceived s)"
    by (simp add: audioReceived_step)
next
  assume "session_at server n = Some s"
  then show "map_option audioReceived (session_at (step P server (UpstreamMessage m message)) n) =
          Some (if m = n \<and> speechmaticsWs s \<noteq> None
                then audioReceived (speechmaticsWs_on_message P s message)
                else audioReceived s)"
    by (simp add: session_at_update_session on_upstream_def)
qed

theorem audioReceived_follows_AudioAdded_witness:
  \<open>clientWs_on_message example_parse
       \<lparr>sessionId = ''k1'', clientWs = accepted_socket,
        speechmaticsWs = Some \<lparr>readyState = CONNECTING, sent = [], pings = 0\<rparr>,
        closed = False, audioReceived = False, pingInterval = True, language = Str ''ar''\<rparr>
       (BufferData ''ab'')
     = \<lparr>sessionId = ''k1'', clientWs = accepted_socket,
        speechmaticsWs = Some \<lparr>readyState = CONNECTING, sent = [], pings = 0\<rparr>,
        closed = False, audioReceived = False, pingInterval = True, language = Str ''ar''\<rparr>
   \<and> audioReceived (speechmaticsWs_on_message example_parse
       \<lparr>sessionId = ''k1'', clientWs = accepted_socket,
        speechmaticsWs = Some \<lparr>readyState = CONNECTING, sent = [], pings = 0\<rparr>,
        closed = False, audioReceived = False, pingInterval = True, language = Str ''ar''\<rparr>
       (StringData ''{"message":"AudioAdded"}''))
   \<and> Map_size (activeSessions initial_server) < 2
   \<and> map_option audioReceived
        (session_at (wss_on_connection initial_server
           \<lparr>sec_websocket_key = ''k1'', url = ''/''\<rparr> Constructed) 0) = Some False
   \<and> session_at
        \<lparr>activeSessions = [(''k1'', 0)],
         connections = [Accepted
           \<lparr>sessionId = ''k1'', clientWs = accepted_socket,
            speechmaticsWs = Some \<lparr>readyState = CONNECTING, sent = [], pings = 0\<rparr>,
            closed = False, audioReceived = False, pingInterval = True,
            language = Str ''ar''\<rparr>]\<rparr> 0
      = Some \<lparr>sessionId = ''k1'', clientWs = accepted_socket,
            speechmaticsWs = Some \<lparr>readyState = CONNECTING, sent = [], pings = 0\<rparr>,
            closed = False, audioReceived = False, pingInterval = True,
            language = Str ''ar''\<rparr>
   \<and> map_option audioReceived (session_at (step example_parse
        \<lparr>activeSessions = [(''k1'', 0)],
         connections = [Accepted
           \<lparr>sessionId = ''k1'', clientWs = accepted_socket,
            speechmaticsWs = Some \<lparr>readyState = CONNECTING, sent = [], pings = 0\<rparr>,
            closed = False, audioReceived = False, pingInterval = True,
            language = Str ''ar''\<rparr>]\<rparr> (UpstreamOpen 0)) 0) = Some False
   \<and> map_option audioReceived (session_at (step example_parse
        \<lparr>activeSessions = [(''k1'', 0)],
         connections = [Accepted
           \<lparr>sessionId = ''k1'', clientWs = accepted_socket,
            speechmaticsWs = Some \<lparr>readyState = CONNECTING, sent = [], pings = 0\<rparr>,
            closed = False, audioReceived = False, pingInterval = True,
            language = Str ''ar''\<rparr>]\<rparr>
        (UpstreamMessage 0 (StringData ''{"message":"AudioAdded"}''))) 0) = Some True\<close>
  using audioReceived_follows_AudioAdded [where
      s = "\<lparr>sessionId = ''k1'', clientWs = accepted_socket,
        speechmaticsWs = Some \<lparr>readyState = CONNECTING, sent = [], pings = 0\<rparr>,
        closed = False, audioReceived = False, pingInterval = True, language = Str ''ar''\<rparr>"
      and P = example_parse and frame = "BufferData ''ab''"
      and message = \<open>StringData ''{"message":"AudioAdded"}''\<close>
      and server = "\<lparr>activeSessions = [(''k1'', 0)],
         connections = [Accepted
           \<lparr>sessionId = ''k1'', clientWs = accepted_socket,
            speechmaticsWs = Some \<lparr>readyState = CONNECTING, sent = [], pings = 0\<rparr>,
            closed = False, audioReceived = False, pingInterval = True,
            language = Str ''ar''\<rparr>]\<rparr>"
      and n = 0 and m = 0 and e = "UpstreamOpen 0"
      and req = "\<lparr>sec_websocket_key = ''k1'', url = ''/''\<rparr>" and ctor = Constructed]
    audioReceived_follows_AudioAdded [where
      s = "\<lparr>sessionId = ''k1'', clientWs = accepted_socket,
        speechmaticsWs = Some \<lparr>readyState = CONNECTING, sent = [], pings = 0\<rparr>,
        closed = False, audioReceived = False, pingInterval = True, language = Str ''ar''\<rparr>"
      and P = example_parse and frame = "BufferData ''ab''"
      and message = \<open>StringData ''{"message":"AudioAdded"}''\<close>
      and server = initial_server
      and n = 0 and m = 0 and e = "UpstreamOpen 0"
      and req = "\<lparr>sec_websocket_key = ''k1'', url = ''/''\<rparr>" and ctor = Constructed]
  by (simp add: example_parse_def session_at_def initial_server_def Map_size_def)

theorem forwarded_frame_counterexample:
  "upstream_sent (run example_parse initial_server
        [Connection \<lparr>sec_websocket_key = ''k1'', url = ''/''\<rparr> Constructed,
         UpstreamTransport 0 OPEN, UpstreamOpen 0, ClientMessage 0 (BufferData ''ab'')]) 0
     = upstream_sent (run example_parse initial_server
        [Connection \<lparr>sec_websocket_key = ''k1'', url = ''/''\<rparr> Constructed,
         UpstreamTransport 0 OPEN, UpstreamOpen 0]) 0 @ [Data (BufferData ''ab'')]
   \<and> map_option audioReceived (session_at (run example_parse initial_server
        [Connection \<lparr>sec_websocket_key = ''k1'', url = ''/''\<rparr> Constructed,
         UpstreamTransport 0 OPEN, UpstreamOpen 0, ClientMessage 0 (BufferData ''ab'')]) 0)
     = Some False"
  by (simp add: eval_defs handler_defs)

text \<open>
  C10. On a session that is not closed, what the relay does with a client frame
  depends only on whether the text of the frame parses as JSON, for a text frame and
  a binary frame alike: if it parses, the frame is taken for configuration and the
  session is unchanged, nothing being sent upstream; if it does not and the upstream
  socket is open, the frame itself is sent upstream, and nothing else changes.
\<close>

theorem client_frames_are_classified_by_parsing:
  "\<not> closed s \<Longrightarrow>
     (P (toString frame) \<noteq> None \<longrightarrow> clientWs_on_message P s frame = s)
   \<and> (P bytes \<noteq> None \<longrightarrow> clientWs_on_message P s (BufferData bytes) = s
                          \<and> clientWs_on_message P s (StringData bytes) = s)
   \<and> (P (toString frame) = None \<and> speechmaticsWs s = Some ws \<and> readyState ws = OPEN \<longrightarrow>
        clientWs_on_message P s frame =
          s\<lparr>speechmaticsWs := Some (ws\<lparr>sent := sent ws @ [Data frame]\<rparr>)\<rparr>)"
  by (cases frame) (simp_all add: clientWs_on_message_def ws_send_def)

theorem client_frames_are_classified_by_parsing_witness:
  "clientWs_on_message example_parse
       \<lparr>sessionId = ''k1'', clientWs = accepted_socket,
        speechmaticsWs = Some \<lparr>readyState = OPEN, sent = [], pings = 0\<rparr>,
        closed = False, audioReceived = False, pingInterval = True, language = Str ''ar''\<rparr>
       (BufferData ''12'')
     = \<lparr>sessionId = ''k1'', clientWs = accepted_socket,
        speechmaticsWs = Some \<lparr>readyState = OPEN, sent = [], pings = 0\<rparr>,
        closed = False, audioReceived = False, pingInterval = True, language = Str ''ar''\<rparr>
   \<and> clientWs_on_message example_parse
       \<lparr>sessionId = ''k1'', clientWs = accepted_socket,
        speechmaticsWs = Some \<lparr>readyState = OPEN, sent = [], pings = 0\<rparr>,
        closed = False, audioReceived = False, pingInterval = True, language = Str ''ar''\<rparr>
       (BufferData ''ab'')
     = \<lparr>sessionId = ''k1'', clientWs = accepted_socket,
        speechmaticsWs = Some \<lparr>readyState = OPEN, sent = [Data (BufferData ''ab'')], pings = 0\<rparr>,
        closed = False, audioReceived = False, pingInterval = True, language = Str ''ar''\<rparr>"
  using client_frames_are_classified_by_parsing [of
       "\<lparr>sessionId = ''k1'', clientWs = accepted_socket,
        speechmaticsWs = Some \<lparr>readyState = OPEN, sent = [], pings = 0\<rparr>,
        closed = False, audioReceived = False, pingInterval = True, language = Str ''ar''\<rparr>"
       example_parse "BufferData ''12''" "''12''" "\<lparr>readyState = OPEN, sent = [], pings = 0\<rparr>"]
    client_frames_are_classified_by_parsing [of
       "\<lparr>sessionId = ''k1'', clientWs = accepted_socket,
        speechmaticsWs = Some \<lparr>readyState = OPEN, sent = [], pings = 0\<rparr>,
        closed = False, audioReceived = False, pingInterval = True, language = Str ''ar''\<rparr>"
       example_parse "BufferData ''ab''" "''12''" "\<lparr>readyState = OPEN, sent = [], pings = 0\<rparr>"]
  by (simp add: example_parse_def)

end
